theory Spec2Isabelle
  imports Complex_Main
begin

section \<open>Python values: exceptions as results\<close>

text \<open>
  Every exception the modelled code can raise is a value. \<open>AssertionError\<close> carries the
  message of the failed \<^verbatim>\<open>assert\<close>. \<open>ShapeMismatch\<close> and
  \<open>UnsupportedConfiguration\<close> are the two failures of the attention kernel.
\<close>

datatype error =
    AssertionError string
  | ZeroDivisionError
  | IndexError
  | ValueError
  | RuntimeError
  | ShapeMismatch
  | UnsupportedConfiguration

type_synonym 'a result = "error + 'a"

text \<open>Sequencing: the first exception raised ends the computation.\<close>

definition and_then :: "'a result \<Rightarrow> ('a \<Rightarrow> 'b result) \<Rightarrow> 'b result" where
  "and_then m f = (case m of Inl e \<Rightarrow> Inl e | Inr x \<Rightarrow> f x)"

section \<open>Tensors\<close>

text \<open>
  A tensor has a shape, a numeric precision and one element per index list. Elements are
  real numbers: arithmetic is exact, and a precision is a tag that a cast rewrites.
\<close>

datatype dtype = float16 | bfloat16 | float32 | float64

record tensor =
  shape :: "nat list"
  dtype :: dtype
  elem :: "nat list \<Rightarrow> real"

text \<open>\<^verbatim>\<open>t.size(-1)\<close>: the last dimension; a tensor without dimensions has none.\<close>

definition size_last :: "tensor \<Rightarrow> nat result" where
  "size_last t = (if shape t = [] then Inl IndexError else Inr (last (shape t)))"

text \<open>\<^verbatim>\<open>t.to(d)\<close>.\<close>

definition to_dtype :: "dtype \<Rightarrow> tensor \<Rightarrow> tensor" where
  "to_dtype d t = t\<lparr>dtype := d\<rparr>"

text \<open>Row-major position of an index list in a shape, and back.\<close>

fun ravel :: "nat list \<Rightarrow> nat list \<Rightarrow> nat" where
  "ravel (n # ns) (i # is) = i * prod_list ns + ravel ns is"
| "ravel _ _ = 0"

fun unravel :: "nat list \<Rightarrow> nat \<Rightarrow> nat list" where
  "unravel [] p = []"
| "unravel (n # ns) p = (p div prod_list ns) # unravel ns (p mod prod_list ns)"

text \<open>
  \<^verbatim>\<open>t.reshape(n1, ..., nk)\<close> with Python integers. A shape with a different number of
  elements is refused, and so is a negative entry: a layer built by the constructors
  passes one only for a negative \<open>num_heads\<close>, and then the entries are \<open>num_heads\<close> and a
  head dimension that leave nothing for a lone \<open>-1\<close> to stand for.
\<close>

definition reshape :: "tensor \<Rightarrow> int list \<Rightarrow> tensor result" where
  "reshape t ns =
     (if (\<exists>n \<in> set ns. n < 0) \<or> prod_list (map nat ns) \<noteq> prod_list (shape t)
      then Inl RuntimeError
      else Inr \<lparr>shape = map nat ns, dtype = dtype t,
                elem = (\<lambda>idx. elem t (unravel (shape t) (ravel (map nat ns) idx)))\<rparr>)"

text \<open>\<^verbatim>\<open>t.select(d, c)\<close> and \<^verbatim>\<open>t.unbind(d)\<close>: the slices along dimension \<open>d\<close>.\<close>

definition select :: "nat \<Rightarrow> nat \<Rightarrow> tensor \<Rightarrow> tensor" where
  "select d c t =
     \<lparr>shape = take d (shape t) @ drop (Suc d) (shape t), dtype = dtype t,
      elem = (\<lambda>idx. elem t (take d idx @ [c] @ drop d idx))\<rparr>"

definition unbind :: "nat \<Rightarrow> tensor \<Rightarrow> tensor list result" where
  "unbind d t =
     (if d < length (shape t) then Inr (map (\<lambda>c. select d c t) [0 ..< shape t ! d])
      else Inl IndexError)"

text \<open>\<^verbatim>\<open>t.flatten(2)\<close>: dimensions 2 and up become one.\<close>

definition flatten2 :: "tensor \<Rightarrow> tensor result" where
  "flatten2 t =
     (if length (shape t) < 3 then Inl IndexError
      else Inr \<lparr>shape = take 2 (shape t) @ [prod_list (drop 2 (shape t))], dtype = dtype t,
                elem = (\<lambda>idx. elem t (take 2 idx @ unravel (drop 2 (shape t)) (idx ! 2)))\<rparr>)"

text \<open>\<^verbatim>\<open>t * s\<close> for a Python float \<open>s\<close>.\<close>

definition mul_scalar :: "tensor \<Rightarrow> real \<Rightarrow> tensor" where
  "mul_scalar t s = t\<lparr>elem := (\<lambda>idx. elem t idx * s)\<rparr>"

text \<open>\<^verbatim>\<open>n ** (-0.25)\<close> for a Python integer \<open>n\<close>: zero has no negative power.\<close>

definition pow_neg_quarter :: "nat \<Rightarrow> real result" where
  "pow_neg_quarter n = (if n = 0 then Inl ZeroDivisionError else Inr (real n powr (- (1 / 4))))"

section \<open>Modules\<close>

text \<open>
  A module maps a tensor to a tensor or raises. The linear and normalization layers are
  callables handed to the constructors (\<open>which_linear\<close>, \<open>norm_layer\<close>); building one
  may raise as well.
\<close>

type_synonym module = "tensor \<Rightarrow> tensor result"

definition nn_Identity :: module where
  "nn_Identity x = Inr x"

text \<open>
  \<^verbatim>\<open>nn.Dropout(p)\<close> refuses a probability outside \<open>[0, 1]\<close>. In training mode its forward
  zeroes the elements the random draw drops and divides the others by \<open>1 - p\<close>.
\<close>

definition nn_Dropout :: "real \<Rightarrow> real result" where
  "nn_Dropout p = (if p < 0 \<or> 1 < p then Inl ValueError else Inr p)"

definition Dropout_forward :: "real \<Rightarrow> bool \<Rightarrow> (nat list \<Rightarrow> bool) \<Rightarrow> tensor \<Rightarrow> tensor" where
  "Dropout_forward p training_mode keep x =
     (if training_mode \<and> 0 < p
      then x\<lparr>elem := (\<lambda>idx. if keep idx then elem x idx / (1 - p) else 0)\<rparr>
      else x)"

text \<open>
  The process-wide random state, as the draws one forward call takes from it: which
  attention weights (batch, head, query, key) and which projected elements survive dropout.
\<close>

record rand =
  attn_keep :: "nat \<Rightarrow> nat \<Rightarrow> nat \<Rightarrow> nat \<Rightarrow> bool"
  proj_keep :: "nat list \<Rightarrow> bool"

text \<open>
  \<open>which_flash_attn\<close>, as the layers call it: \<open>q\<close>, \<open>k\<close>, \<open>v\<close>, \<open>attn_drop\<close>, \<open>causal\<close>,
  \<open>window_size\<close>, \<open>alibi_slopes\<close>, \<open>sigmoid_bias\<close>. \<open>qk_transform\<close> takes \<open>q\<close>, \<open>k\<close>,
  \<open>q_pos_offset\<close> and \<open>k_pos_offset\<close>.
\<close>

type_synonym flash_attn =
  "rand \<Rightarrow> tensor \<Rightarrow> tensor \<Rightarrow> tensor \<Rightarrow> real \<Rightarrow> bool \<Rightarrow> int \<times> int \<Rightarrow> tensor option \<Rightarrow> real
   \<Rightarrow> tensor result"

type_synonym qk_transform_fn = "tensor \<Rightarrow> tensor \<Rightarrow> int \<Rightarrow> int \<Rightarrow> (tensor \<times> tensor) result"

text \<open>
  Two callables to hand to the constructors (the defaults \<^verbatim>\<open>nn.Linear\<close> and
  \<^verbatim>\<open>nn.LayerNorm\<close>): a linear map over the last dimension with weight \<open>W\<close> and bias \<open>b\<close>,
  and a normalization of the last dimension to zero mean and unit variance. Either refuses
  a negative size when it is built and a last dimension of another size when it is applied.
\<close>

definition Linear_forward :: "(nat \<Rightarrow> nat \<Rightarrow> real) \<Rightarrow> (nat \<Rightarrow> real) \<Rightarrow> nat \<Rightarrow> nat \<Rightarrow> bool \<Rightarrow> module" where
  "Linear_forward W b in_features out_features bias x =
     (if shape x = [] \<or> last (shape x) \<noteq> in_features then Inl RuntimeError
      else Inr \<lparr>shape = butlast (shape x) @ [out_features], dtype = dtype x,
                elem = (\<lambda>idx. (\<Sum>i\<leftarrow>[0 ..< in_features]. elem x (butlast idx @ [i]) * W (last idx) i)
                             + (if bias then b (last idx) else 0))\<rparr>)"

definition nn_Linear :: "(nat \<Rightarrow> nat \<Rightarrow> real) \<Rightarrow> (nat \<Rightarrow> real) \<Rightarrow> int \<Rightarrow> int \<Rightarrow> bool \<Rightarrow> module result" where
  "nn_Linear W b in_features out_features bias =
     (if in_features < 0 \<or> out_features < 0 then Inl RuntimeError
      else Inr (Linear_forward W b (nat in_features) (nat out_features) bias))"

definition LayerNorm_forward :: "nat \<Rightarrow> module" where
  "LayerNorm_forward n x =
     (if shape x = [] \<or> last (shape x) \<noteq> n then Inl RuntimeError
      else Inr (x\<lparr>elem := (\<lambda>idx.
             let xs = map (\<lambda>i. elem x (butlast idx @ [i])) [0 ..< n];
                 mean = sum_list xs / real n;
                 var = (\<Sum>y\<leftarrow>xs. (y - mean)\<^sup>2) / real n
             in (elem x idx - mean) / sqrt (var + 1 / 100000))\<rparr>))"

definition nn_LayerNorm :: "int \<Rightarrow> module result" where
  "nn_LayerNorm n = (if n < 0 then Inl RuntimeError else Inr (LayerNorm_forward (nat n)))"

section \<open>The layers\<close>

text \<open>The attributes both layers set, then each layer's own.\<close>

record attention_base =
  causal :: bool
  num_heads :: int
  qk_norm :: bool
  window_size :: "int \<times> int"
  alibi_slopes :: "tensor option"
  sigmoid_bias :: real
  which_flash_attn :: flash_attn
  qk_transform :: "qk_transform_fn option"
  q_norm :: module
  k_norm :: module
  proj :: module
  attn_drop :: real
  proj_drop :: real
  training :: bool

record FlashSigmoidAttention = attention_base +
  head_dim :: int
  qkv :: module

record FlashSigmoidCrossAttention = attention_base +
  head_dim_q :: int
  head_dim_kv :: int
  q_proj :: module
  kv_proj :: module
  v_norm :: module

text \<open>
  \<^verbatim>\<open>FlashSigmoidAttention.__init__\<close>. \<^verbatim>\<open>dim % num_heads\<close> raises for \<open>num_heads = 0\<close>; the
  assertion comes before any layer is built.
\<close>

definition FlashSigmoidAttention_init ::
  "int \<Rightarrow> real \<Rightarrow> bool \<Rightarrow> int \<Rightarrow> bool \<Rightarrow> bool \<Rightarrow> real \<Rightarrow> real \<Rightarrow> int \<times> int \<Rightarrow> tensor option
   \<Rightarrow> (int \<Rightarrow> module result) \<Rightarrow> (int \<Rightarrow> int \<Rightarrow> bool \<Rightarrow> module result)
   \<Rightarrow> qk_transform_fn option \<Rightarrow> flash_attn \<Rightarrow> FlashSigmoidAttention result" where
  "FlashSigmoidAttention_init dim' sigmoid_bias' causal' num_heads' bias qk_norm' attn_drop'
       proj_drop' window_size' alibi_slopes' norm_layer which_linear qk_transform'
       which_flash_attn' =
     (if num_heads' = 0 then Inl ZeroDivisionError
      else if dim' mod num_heads' \<noteq> 0
      then Inl (AssertionError ''dim should be divisible by num_heads'')
      else
        and_then (which_linear dim' (dim' * 3) bias) (\<lambda>qkv'.
        and_then (if qk_norm' then norm_layer (dim' div num_heads') else Inr nn_Identity) (\<lambda>q_norm'.
        and_then (if qk_norm' then norm_layer (dim' div num_heads') else Inr nn_Identity) (\<lambda>k_norm'.
        and_then (which_linear dim' dim' bias) (\<lambda>proj'.
        and_then (nn_Dropout proj_drop') (\<lambda>drop'.
        Inr \<lparr>causal = causal', num_heads = num_heads', qk_norm = qk_norm',
             window_size = window_size', alibi_slopes = alibi_slopes',
             sigmoid_bias = sigmoid_bias', which_flash_attn = which_flash_attn',
             qk_transform = qk_transform', q_norm = q_norm', k_norm = k_norm',
             proj = proj', attn_drop = attn_drop', proj_drop = drop', training = True,
             head_dim = dim' div num_heads', qkv = qkv'\<rparr>))))))"

text \<open>\<^verbatim>\<open>FlashSigmoidCrossAttention.__init__\<close>; \<open>v_norm\<close> is built whatever \<open>qk_norm\<close> says.\<close>

definition FlashSigmoidCrossAttention_init ::
  "int \<Rightarrow> int \<Rightarrow> real \<Rightarrow> bool \<Rightarrow> int \<Rightarrow> bool \<Rightarrow> bool \<Rightarrow> real \<Rightarrow> real \<Rightarrow> int \<times> int
   \<Rightarrow> tensor option \<Rightarrow> (int \<Rightarrow> module result) \<Rightarrow> (int \<Rightarrow> int \<Rightarrow> bool \<Rightarrow> module result)
   \<Rightarrow> qk_transform_fn option \<Rightarrow> flash_attn \<Rightarrow> FlashSigmoidCrossAttention result" where
  "FlashSigmoidCrossAttention_init q_dim kv_dim sigmoid_bias' causal' num_heads' bias qk_norm'
       attn_drop' proj_drop' window_size' alibi_slopes' norm_layer which_linear qk_transform'
       which_flash_attn' =
     (if num_heads' = 0 then Inl ZeroDivisionError
      else if \<not> (q_dim mod num_heads' = 0 \<and> kv_dim mod num_heads' = 0)
      then Inl (AssertionError ''Dimensions should be divisible by num_heads'')
      else
        and_then (which_linear q_dim q_dim bias) (\<lambda>q_proj'.
        and_then (which_linear kv_dim (kv_dim * 2) bias) (\<lambda>kv_proj'.
        and_then (if qk_norm' then norm_layer (q_dim div num_heads') else Inr nn_Identity) (\<lambda>q_norm'.
        and_then (if qk_norm' then norm_layer (kv_dim div num_heads') else Inr nn_Identity) (\<lambda>k_norm'.
        and_then (norm_layer (kv_dim div num_heads')) (\<lambda>v_norm'.
        and_then (which_linear kv_dim q_dim bias) (\<lambda>proj'.
        and_then (nn_Dropout proj_drop') (\<lambda>drop'.
        Inr \<lparr>causal = causal', num_heads = num_heads', qk_norm = qk_norm',
             window_size = window_size', alibi_slopes = alibi_slopes',
             sigmoid_bias = sigmoid_bias', which_flash_attn = which_flash_attn',
             qk_transform = qk_transform', q_norm = q_norm', k_norm = k_norm',
             proj = proj', attn_drop = attn_drop', proj_drop = drop', training = True,
             head_dim_q = q_dim div num_heads', head_dim_kv = kv_dim div num_heads',
             q_proj = q_proj', kv_proj = kv_proj', v_norm = v_norm'\<rparr>))))))))"

section \<open>The attention helpers\<close>

text \<open>
  The kernel \<^verbatim>\<open>flash_attn_sigmoid_func\<close>, as \<^verbatim>\<open>flash2_sigmoid_attn\<close> calls it: \<open>q\<close>, \<open>k\<close>,
  \<open>v\<close>, \<open>softmax_scale\<close>, \<open>dropout_p\<close>, \<open>window_size\<close>, \<open>alibi_slopes\<close>, \<open>causal\<close>,
  \<open>sigmoid_bias\<close>; and the packed kernel \<^verbatim>\<open>flash_attn_sigmoid_qkvpacked_func\<close>: \<open>qkv\<close>,
  \<open>softmax_scale\<close>, \<open>dropout_p\<close>, \<open>causal\<close>, \<open>window_size\<close>, \<open>alibi_slopes\<close>,
  \<open>sigmoid_bias\<close>. Both read the random state.
\<close>

type_synonym attention_kernel =
  "rand \<Rightarrow> tensor \<Rightarrow> tensor \<Rightarrow> tensor \<Rightarrow> real option \<Rightarrow> real \<Rightarrow> int \<times> int \<Rightarrow> tensor option
   \<Rightarrow> bool \<Rightarrow> real \<Rightarrow> tensor result"

type_synonym packed_kernel =
  "rand \<Rightarrow> tensor \<Rightarrow> real option \<Rightarrow> real \<Rightarrow> bool \<Rightarrow> int \<times> int \<Rightarrow> tensor option \<Rightarrow> real
   \<Rightarrow> tensor result"

text \<open>
  \<^verbatim>\<open>flash2_sigmoid_attn\<close>. The scale factor is computed first, whatever \<open>prescale\<close> says.
\<close>

definition flash2_sigmoid_attn ::
  "attention_kernel \<Rightarrow> rand \<Rightarrow> tensor \<Rightarrow> tensor \<Rightarrow> tensor \<Rightarrow> real \<Rightarrow> real \<Rightarrow> int \<times> int
   \<Rightarrow> tensor option \<Rightarrow> bool \<Rightarrow> bool \<Rightarrow> tensor result" where
  "flash2_sigmoid_attn flash_attn_sigmoid_func rs q k v sigmoid_bias' attn_drop' window_size'
       alibi_slopes' causal' prescale =
     and_then (size_last q) (\<lambda>D.
     and_then (pow_neg_quarter D) (\<lambda>scale_factor.
     and_then
       (flash_attn_sigmoid_func rs
          (if prescale then mul_scalar q scale_factor else q)
          (if prescale then mul_scalar k scale_factor else k)
          v
          (if prescale then Some 1 else None)
          attn_drop' window_size' alibi_slopes' causal' sigmoid_bias')
       flatten2))"

text \<open>
  \<open>which_flash_attn\<close> defaults to \<^verbatim>\<open>flash2_sigmoid_attn\<close>; the layers pass no \<open>prescale\<close>, so
  it is \<open>True\<close>.
\<close>

definition default_flash_attn :: "attention_kernel \<Rightarrow> flash_attn" where
  "default_flash_attn flash_attn_sigmoid_func rs q k v attn_drop' causal' window_size'
       alibi_slopes' sigmoid_bias' =
     flash2_sigmoid_attn flash_attn_sigmoid_func rs q k v sigmoid_bias' attn_drop' window_size'
       alibi_slopes' causal' True"

text \<open>\<^verbatim>\<open>torch.ones(shape, dtype=d)\<close>.\<close>

definition ones :: "nat list \<Rightarrow> dtype \<Rightarrow> tensor" where
  "ones sh d = \<lparr>shape = sh, dtype = d, elem = (\<lambda>idx. 1)\<rparr>"

text \<open>\<^verbatim>\<open>t[:, :, :-1] *= s\<close>: all but the last slice along dimension 2.\<close>

definition imul_slice2_butlast :: "tensor \<Rightarrow> real \<Rightarrow> tensor result" where
  "imul_slice2_butlast t s =
     (if length (shape t) < 3 then Inl IndexError
      else Inr (t\<lparr>elem := (\<lambda>idx. if 2 < length idx \<and> idx ! 2 < shape t ! 2 - 1
                                  then elem t idx * s else elem t idx)\<rparr>))"

text \<open>
  \<^verbatim>\<open>a * b\<close> for two tensors: shapes are aligned at the last dimension, and a dimension of
  size 1 (or a missing one) is repeated.
\<close>

fun broadcast_rev :: "nat list \<Rightarrow> nat list \<Rightarrow> nat list option" where
  "broadcast_rev [] ys = Some ys"
| "broadcast_rev xs [] = Some xs"
| "broadcast_rev (x # xs) (y # ys) =
     (if x = y \<or> y = 1 then map_option ((#) x) (broadcast_rev xs ys)
      else if x = 1 then map_option ((#) y) (broadcast_rev xs ys)
      else None)"

definition broadcast_index :: "nat list \<Rightarrow> nat list \<Rightarrow> nat list" where
  "broadcast_index sh idx =
     map (\<lambda>(n, i). if n = 1 then 0 else i) (zip sh (drop (length idx - length sh) idx))"

definition tensor_mul :: "tensor \<Rightarrow> tensor \<Rightarrow> tensor result" where
  "tensor_mul a b =
     (case broadcast_rev (rev (shape a)) (rev (shape b)) of
        None \<Rightarrow> Inl RuntimeError
      | Some sh \<Rightarrow>
          Inr \<lparr>shape = rev sh, dtype = dtype a,
               elem = (\<lambda>idx. elem a (broadcast_index (shape a) idx)
                             * elem b (broadcast_index (shape b) idx))\<rparr>)"

text \<open>
  \<^verbatim>\<open>fused_sigmoid_flash2_attn\<close>: the scale factor is a tensor of ones of shape
  \<open>(1, 1, 3, 1, 1)\<close> whose first two slices along the packing axis are multiplied by
  \<open>head_dim ** (-0.25)\<close>; \<open>fused_kernel_qkv\<close> is the \<open>qkv\<close> argument of the kernel call.
\<close>

definition fused_scale_factor :: "tensor \<Rightarrow> tensor result" where
  "fused_scale_factor qkv' =
     and_then (size_last qkv') (\<lambda>D.
     and_then (pow_neg_quarter D) (\<lambda>s.
     imul_slice2_butlast (ones [1, 1, 3, 1, 1] (dtype qkv')) s))"

definition fused_kernel_qkv :: "tensor \<Rightarrow> bool \<Rightarrow> tensor result" where
  "fused_kernel_qkv qkv' prescale =
     and_then (fused_scale_factor qkv') (\<lambda>scale_factor.
     if prescale then tensor_mul qkv' scale_factor else Inr qkv')"

definition fused_sigmoid_flash2_attn ::
  "packed_kernel \<Rightarrow> rand \<Rightarrow> tensor \<Rightarrow> real \<Rightarrow> real \<Rightarrow> int \<times> int \<Rightarrow> tensor option \<Rightarrow> bool \<Rightarrow> bool
   \<Rightarrow> tensor result" where
  "fused_sigmoid_flash2_attn flash_attn_sigmoid_qkvpacked_func rs qkv' sigmoid_bias' attn_drop'
       window_size' alibi_slopes' causal' prescale =
     and_then (fused_kernel_qkv qkv' prescale) (\<lambda>scaled.
     and_then
       (flash_attn_sigmoid_qkvpacked_func rs scaled (if prescale then Some 1 else None)
          attn_drop' causal' window_size' alibi_slopes' sigmoid_bias')
       flatten2)"

section \<open>Forward passes\<close>

text \<open>\<^verbatim>\<open>a // b\<close> on Python integers, and \<^verbatim>\<open>t.shape[i]\<close>.\<close>

definition floordiv :: "int \<Rightarrow> int \<Rightarrow> int result" where
  "floordiv a b = (if b = 0 then Inl ZeroDivisionError else Inr (a div b))"

definition shape_at :: "tensor \<Rightarrow> nat \<Rightarrow> int result" where
  "shape_at t i = (if i < length (shape t) then Inr (int (shape t ! i)) else Inl IndexError)"

text \<open>
  \<^verbatim>\<open>FlashSigmoidAttention.forward\<close>, up to the arguments of the call of
  \<open>which_flash_attn\<close>: the fused projection, its three slices, the norms of \<open>q\<close> and \<open>k\<close>,
  the optional transform, and the casts.
\<close>

definition FlashSigmoidAttention_kernel_args ::
  "FlashSigmoidAttention \<Rightarrow> tensor \<Rightarrow> (tensor \<times> tensor \<times> tensor) result" where
  "FlashSigmoidAttention_kernel_args self x =
     (case shape x of
        [B, N, C] \<Rightarrow>
          and_then (qkv self x) (\<lambda>y.
          and_then (floordiv (int C) (num_heads self)) (\<lambda>hd.
          and_then (reshape y [int B, int N, 3, num_heads self, hd]) (\<lambda>qkv'.
          and_then (unbind 2 qkv') (\<lambda>parts.
          case parts of
            [q, k, v] \<Rightarrow>
              and_then (q_norm self q) (\<lambda>q.
              and_then (k_norm self k) (\<lambda>k.
              and_then (case qk_transform self of
                          None \<Rightarrow> Inr (q, k)
                        | Some f \<Rightarrow> f q k 0 0) (\<lambda>(q, k).
              Inr (to_dtype (dtype v) q, to_dtype (dtype v) k, v))))
          | _ \<Rightarrow> Inl ValueError))))
      | _ \<Rightarrow> Inl ValueError)"

text \<open>
  The rest of \<^verbatim>\<open>forward\<close>, shared by both layers: the call of \<open>which_flash_attn\<close>, the
  output projection, its dropout, and the dictionary returned. The source assigns no
  attribute of \<open>self\<close>, so the layer is only read.
\<close>

definition attend_and_project ::
  "'a attention_base_scheme \<Rightarrow> rand \<Rightarrow> tensor \<times> tensor \<times> tensor \<Rightarrow> (string \<rightharpoonup> tensor) result" where
  "attend_and_project self rs qkv_args =
     (case qkv_args of (q, k, v) \<Rightarrow>
        and_then (which_flash_attn self rs q k v (attn_drop self) (causal self)
                    (window_size self) (alibi_slopes self) (sigmoid_bias self)) (\<lambda>attn_times_v.
        and_then (proj self attn_times_v) (\<lambda>projected.
        let final_proj_output =
              Dropout_forward (proj_drop self) (training self) (proj_keep rs) projected
        in Inr (Map.empty(''attn_times_v'' \<mapsto> attn_times_v,
                          ''attn_proj'' \<mapsto> final_proj_output)))))"

definition FlashSigmoidAttention_forward ::
  "FlashSigmoidAttention \<Rightarrow> rand \<Rightarrow> tensor \<Rightarrow> (string \<times> 'kw) list \<Rightarrow> (string \<rightharpoonup> tensor) result" where
  "FlashSigmoidAttention_forward self rs x unused_kwargs =
     and_then (FlashSigmoidAttention_kernel_args self x) (attend_and_project self rs)"

text \<open>\<^verbatim>\<open>FlashSigmoidCrossAttention.forward\<close>, in the same two parts.\<close>

definition FlashSigmoidCrossAttention_kernel_args ::
  "FlashSigmoidCrossAttention \<Rightarrow> tensor \<Rightarrow> tensor \<Rightarrow> (tensor \<times> tensor \<times> tensor) result" where
  "FlashSigmoidCrossAttention_kernel_args self q kv =
     and_then (q_proj self q) (\<lambda>q1.
     and_then (shape_at q 0) (\<lambda>q_shape0.
     and_then (shape_at q 1) (\<lambda>q_shape1.
     and_then (reshape q1 [q_shape0, q_shape1, num_heads self, head_dim_q self]) (\<lambda>q2.
     and_then (kv_proj self kv) (\<lambda>kv1.
     and_then (shape_at kv 0) (\<lambda>kv_shape0.
     and_then (shape_at kv 1) (\<lambda>kv_shape1.
     and_then (reshape kv1 [kv_shape0, kv_shape1, 2, num_heads self, head_dim_kv self]) (\<lambda>kv2.
     and_then (unbind 2 kv2) (\<lambda>parts.
     case parts of
       [k, v] \<Rightarrow>
         and_then (q_norm self q2) (\<lambda>q.
         and_then (k_norm self k) (\<lambda>k.
         and_then (v_norm self v) (\<lambda>v.
         and_then (case qk_transform self of
                     None \<Rightarrow> Inr (q, k)
                   | Some f \<Rightarrow> f q k 0 0) (\<lambda>(q, k).
         Inr (to_dtype (dtype v) q, to_dtype (dtype v) k, v)))))
     | _ \<Rightarrow> Inl ValueError)))))))))"

definition FlashSigmoidCrossAttention_forward ::
  "FlashSigmoidCrossAttention \<Rightarrow> rand \<Rightarrow> tensor \<Rightarrow> tensor \<Rightarrow> (string \<times> 'kw) list
   \<Rightarrow> (string \<rightharpoonup> tensor) result" where
  "FlashSigmoidCrossAttention_forward self rs q kv unused_kwargs =
     and_then (FlashSigmoidCrossAttention_kernel_args self q kv) (attend_and_project self rs)"

section \<open>The attention kernel\<close>

text \<open>
  Modelled from the spec: the kernel \<^verbatim>\<open>flash_attn_sigmoid_func\<close> of the package
  \<^verbatim>\<open>flash_exp\<close>, which the source imports and does not define. The definitions of this
  section follow the spec's contract of the weighted-aggregation step.

  A key \<open>j\<close> is masked out for query \<open>i\<close> when \<open>causal\<close> holds and
  \<open>j > i + (seq_kv - seq_q)\<close>, when the left window bound is not negative and
  \<open>j < i - left\<close>, or when the right bound is not negative and \<open>j > i + right\<close>.
\<close>

definition unmasked :: "bool \<Rightarrow> int \<times> int \<Rightarrow> nat \<Rightarrow> nat \<Rightarrow> nat \<Rightarrow> nat \<Rightarrow> bool" where
  "unmasked causal' window seq_q seq_kv i j =
     ((if causal' then int j \<le> int i + (int seq_kv - int seq_q) else True) \<and>
      (if 0 \<le> fst window then \<not> int j < int i - fst window else True) \<and>
      (if 0 \<le> snd window then \<not> int i + snd window < int j else True))"

text \<open>
  Modelled from the spec: the bias \<open>- s * |i + seq_kv - seq_q - j|\<close> with the slope \<open>s\<close> of
  the head (or of the batch and head); none without slopes.
\<close>

definition alibi_bias :: "tensor option \<Rightarrow> nat \<Rightarrow> nat \<Rightarrow> nat \<Rightarrow> nat \<Rightarrow> nat \<Rightarrow> nat \<Rightarrow> real" where
  "alibi_bias slopes seq_q seq_kv b h i j =
     (case slopes of
        None \<Rightarrow> 0
      | Some s \<Rightarrow>
          - (if length (shape s) = 1 then elem s [h] else elem s [b, h])
          * \<bar>real_of_int (int i + int seq_kv - int seq_q - int j)\<bar>)"

text \<open>Modelled from the spec: the dot product \<open>q_i \<cdot> k_j\<close> of one batch entry and head.\<close>

definition qk_dot :: "tensor \<Rightarrow> tensor \<Rightarrow> nat \<Rightarrow> nat \<Rightarrow> nat \<Rightarrow> nat \<Rightarrow> nat \<Rightarrow> real" where
  "qk_dot q k D b h i j = (\<Sum>d\<leftarrow>[0 ..< D]. elem q [b, i, h, d] * elem k [b, j, h, d])"

definition sigmoid :: "real \<Rightarrow> real" where
  "sigmoid x = 1 / (1 + exp (- x))"

text \<open>
  Modelled from the spec: \<open>logit = (q_i \<cdot> k_j) * scale + alibi_bias(i, j) + sigmoid_bias\<close> and
  \<open>weight = sigmoid(logit)\<close>, each key on its own.
\<close>

definition attn_weight ::
  "tensor \<Rightarrow> tensor \<Rightarrow> real \<Rightarrow> tensor option \<Rightarrow> real \<Rightarrow> nat \<Rightarrow> nat \<Rightarrow> nat \<Rightarrow> nat \<Rightarrow> nat \<Rightarrow> nat \<Rightarrow> nat
   \<Rightarrow> real" where
  "attn_weight q k scale slopes sigmoid_bias' seq_q seq_kv D b h i j =
     sigmoid (qk_dot q k D b h i j * scale + alibi_bias slopes seq_q seq_kv b h i j
              + sigmoid_bias')"

text \<open>
  Modelled from the spec: dropout, if enabled, zeroes a weight the random draw drops and
  rescales a surviving one by \<open>1 / (1 - dropout_prob)\<close>.
\<close>

definition dropout_weight :: "real \<Rightarrow> bool \<Rightarrow> real \<Rightarrow> real" where
  "dropout_weight p kept w = (if p = 0 then w else if kept then w / (1 - p) else 0)"

text \<open>
  Modelled from the spec: slopes are per head, of shape \<open>(heads)\<close>, or per batch and head,
  of shape \<open>(batch, heads)\<close>.
\<close>

definition slopes_fit :: "tensor option \<Rightarrow> nat \<Rightarrow> nat \<Rightarrow> bool" where
  "slopes_fit slopes B H =
     (case slopes of None \<Rightarrow> True | Some s \<Rightarrow> shape s = [H] \<or> shape s = [B, H])"

text \<open>
  Modelled from the spec: \<open>weighted_attention\<close>. \<open>q\<close> has shape
  \<open>(batch, seq_q, heads, head_dim)\<close>, \<open>k\<close> and \<open>v\<close> have shape
  \<open>(batch, seq_kv, heads, head_dim)\<close>; inconsistent sizes or slopes are a
  \<open>ShapeMismatch\<close>, a window bound below the sentinel \<open>-1\<close> is an
  \<open>UnsupportedConfiguration\<close>. The three tensors are required at one precision; the spec
  names no condition for the failure, \<open>RuntimeError\<close> stands for it. Without an explicit
  \<open>softmax_scale\<close> the scale is the reference \<open>head_dim ** (-0.5)\<close>. The output at query \<open>i\<close>
  sums \<open>weight(i, j) * v_j\<close> over the unmasked keys \<open>j\<close>, the weights after dropout.
\<close>

definition flash_attn_sigmoid_func :: attention_kernel where
  "flash_attn_sigmoid_func rs q k v softmax_scale dropout_p window slopes causal' sigmoid_bias' =
     (if length (shape q) \<noteq> 4 \<or> length (shape k) \<noteq> 4 \<or> length (shape v) \<noteq> 4
      then Inl ShapeMismatch
      else
        let B = shape q ! 0; seq_q = shape q ! 1; H = shape q ! 2; D = shape q ! 3;
            seq_kv = shape k ! 1
        in
        if shape k \<noteq> [B, seq_kv, H, D] \<or> shape v \<noteq> [B, seq_kv, H, D] \<or> \<not> slopes_fit slopes B H
        then Inl ShapeMismatch
        else if fst window < - 1 \<or> snd window < - 1 then Inl UnsupportedConfiguration
        else if dtype k \<noteq> dtype q \<or> dtype v \<noteq> dtype q then Inl RuntimeError
        else
          let scale = (case softmax_scale of Some s \<Rightarrow> s | None \<Rightarrow> real D powr (- (1 / 2)))
          in
          Inr \<lparr>shape = [B, seq_q, H, D], dtype = dtype q,
               elem = (\<lambda>idx.
                 case idx of
                   [b, i, h, d] \<Rightarrow>
                     (\<Sum>j\<leftarrow>filter (unmasked causal' window seq_q seq_kv i) [0 ..< seq_kv].
                        dropout_weight dropout_p (attn_keep rs b h i j)
                          (attn_weight q k scale slopes sigmoid_bias' seq_q seq_kv D b h i j)
                        * elem v [b, j, h, d])
                 | _ \<Rightarrow> 0)\<rparr>)"

text \<open>
  The reference the two scaling paths are compared with: the raw dot product scaled by
  \<open>head_dim ** (-0.5)\<close>, handed to the kernel as an explicit scale.
\<close>

definition pow_neg_half :: "nat \<Rightarrow> real result" where
  "pow_neg_half n = (if n = 0 then Inl ZeroDivisionError else Inr (real n powr (- (1 / 2))))"

definition reference_sigmoid_attn ::
  "attention_kernel \<Rightarrow> rand \<Rightarrow> tensor \<Rightarrow> tensor \<Rightarrow> tensor \<Rightarrow> real \<Rightarrow> real \<Rightarrow> int \<times> int
   \<Rightarrow> tensor option \<Rightarrow> bool \<Rightarrow> tensor result" where
  "reference_sigmoid_attn kern rs q k v sigmoid_bias' attn_drop' window_size' alibi_slopes'
       causal' =
     and_then (size_last q) (\<lambda>D.
     and_then (pow_neg_half D) (\<lambda>scale.
     and_then (kern rs q k v (Some scale) attn_drop' window_size' alibi_slopes' causal'
                 sigmoid_bias')
       flatten2))"

section \<open>Example inputs\<close>

text \<open>
  A linear layer with every weight 1, the random state that keeps every element and the
  one that drops every element, and constant tensors.
\<close>

definition example_linear :: "int \<Rightarrow> int \<Rightarrow> bool \<Rightarrow> module result" where
  "example_linear = nn_Linear (\<lambda>j i. 1) (\<lambda>j. 0)"

definition keep_all :: rand where
  "keep_all = \<lparr>attn_keep = (\<lambda>b h i j. True), proj_keep = (\<lambda>idx. True)\<rparr>"

definition drop_all :: rand where
  "drop_all = \<lparr>attn_keep = (\<lambda>b h i j. False), proj_keep = (\<lambda>idx. False)\<rparr>"

definition constant_tensor :: "nat list \<Rightarrow> real \<Rightarrow> tensor" where
  "constant_tensor sh c = \<lparr>shape = sh, dtype = float16, elem = (\<lambda>idx. c)\<rparr>"

text \<open>
  Three layers as the constructors build them from \<open>example_linear\<close> and \<open>nn_LayerNorm\<close>
  with the default \<open>which_flash_attn\<close>: a self-attention layer (\<open>dim = 2\<close>, one head,
  \<open>qk_norm\<close> on), a cross-attention layer with \<open>q_dim = kv_dim = 2\<close> (one head, \<open>qk_norm\<close>
  off), and a cross-attention layer with \<open>q_dim = 4\<close> and \<open>kv_dim = 2\<close> (two heads).
\<close>

definition example_self_layer :: FlashSigmoidAttention where
  "example_self_layer =
     \<lparr>causal = False, num_heads = 1, qk_norm = True, window_size = (- 1, - 1),
      alibi_slopes = None, sigmoid_bias = 0,
      which_flash_attn = default_flash_attn flash_attn_sigmoid_func, qk_transform = None,
      q_norm = LayerNorm_forward 2, k_norm = LayerNorm_forward 2,
      proj = Linear_forward (\<lambda>j i. 1) (\<lambda>j. 0) 2 2 False, attn_drop = 0, proj_drop = 0,
      training = True, head_dim = 2,
      qkv = Linear_forward (\<lambda>j i. 1) (\<lambda>j. 0) 2 6 False\<rparr>"

definition example_cross_layer :: FlashSigmoidCrossAttention where
  "example_cross_layer =
     \<lparr>causal = False, num_heads = 1, qk_norm = False, window_size = (- 1, - 1),
      alibi_slopes = None, sigmoid_bias = 0,
      which_flash_attn = default_flash_attn flash_attn_sigmoid_func, qk_transform = None,
      q_norm = nn_Identity, k_norm = nn_Identity,
      proj = Linear_forward (\<lambda>j i. 1) (\<lambda>j. 0) 2 2 False, attn_drop = 0, proj_drop = 0,
      training = True, head_dim_q = 2, head_dim_kv = 2,
      q_proj = Linear_forward (\<lambda>j i. 1) (\<lambda>j. 0) 2 2 False,
      kv_proj = Linear_forward (\<lambda>j i. 1) (\<lambda>j. 0) 2 4 False,
      v_norm = LayerNorm_forward 2\<rparr>"

definition mismatched_cross_layer :: FlashSigmoidCrossAttention where
  "mismatched_cross_layer =
     \<lparr>causal = False, num_heads = 2, qk_norm = False, window_size = (- 1, - 1),
      alibi_slopes = None, sigmoid_bias = 0,
      which_flash_attn = default_flash_attn flash_attn_sigmoid_func, qk_transform = None,
      q_norm = nn_Identity, k_norm = nn_Identity,
      proj = Linear_forward (\<lambda>j i. 1) (\<lambda>j. 0) 2 4 False, attn_drop = 0, proj_drop = 0,
      training = True, head_dim_q = 2, head_dim_kv = 1,
      q_proj = Linear_forward (\<lambda>j i. 1) (\<lambda>j. 0) 4 4 False,
      kv_proj = Linear_forward (\<lambda>j i. 1) (\<lambda>j. 0) 2 4 False,
      v_norm = LayerNorm_forward 1\<rparr>"

text \<open>
  A normalization that returns its result at \<open>float32\<close>, a transform whose result
  depends on the position offsets it is given, and a stand-in for \<open>which_flash_attn\<close> that
  refuses \<open>q\<close> or \<open>k\<close> at another precision than \<open>v\<close>'s and otherwise is the callable given.
\<close>

definition upcast_norm :: module where
  "upcast_norm x = and_then (LayerNorm_forward 2 x) (\<lambda>y. Inr (to_dtype float32 y))"

definition offset_scaling :: qk_transform_fn where
  "offset_scaling q k q_pos_offset k_pos_offset =
     Inr (mul_scalar q (1 + real_of_int q_pos_offset), mul_scalar k (1 + real_of_int k_pos_offset))"

definition uniform_precision_only :: "flash_attn \<Rightarrow> flash_attn" where
  "uniform_precision_only fa rs q k v attn_drop' causal' window_size' alibi_slopes' sigmoid_bias' =
     (if dtype q = dtype v \<and> dtype k = dtype v
      then fa rs q k v attn_drop' causal' window_size' alibi_slopes' sigmoid_bias'
      else Inl RuntimeError)"

text \<open>A tensor whose entries at sequence position \<open>n\<close> are \<open>n + 1\<close>.\<close>

definition position_values :: "nat list \<Rightarrow> tensor" where
  "position_values sh = \<lparr>shape = sh, dtype = float16, elem = (\<lambda>idx. real (idx ! 1) + 1)\<rparr>"

section \<open>Sequencing\<close>

lemma and_then_Inr [simp]: "and_then (Inr x) f = f x"
  by (simp add: and_then_def)

lemma and_then_Inl [simp]: "and_then (Inl e) f = Inl e"
  by (simp add: and_then_def)

section \<open>How the layers prepare the kernel's arguments\<close>

text \<open>
  What a successful run of the first part of each forward pass went through, what the
  constructors store, and which attributes each part reads.
\<close>

lemma and_then_eq_Inr:
  "and_then m f = Inr r \<longleftrightarrow> (\<exists>a. m = Inr a \<and> f a = Inr r)"
  by (cases m) simp_all

lemma upt_0_3: "[0 ..< 3] = [0, 1, 2]"
  by (simp add: upt_rec)

lemma upt_0_2: "[0 ..< 2] = [0, 1]"
  by (simp add: upt_rec)

lemma unbind_reshape5:
  "reshape y [b, n, c, h, d] = Inr t \<Longrightarrow>
   unbind 2 t = Inr (map (\<lambda>i. select 2 i t) [0 ..< nat c])"
  by (auto simp add: reshape_def unbind_def split: if_splits)

lemma self_kernel_args_Inr:
  assumes "FlashSigmoidAttention_kernel_args self x = Inr (q, k, v)"
  shows "\<exists>y t qn kn q' k'.
      qkv self x = Inr y \<and>
      reshape y [int (shape x ! 0), int (shape x ! 1), 3, num_heads self,
                 int (shape x ! 2) div num_heads self] = Inr t \<and>
      q_norm self (select 2 0 t) = Inr qn \<and>
      k_norm self (select 2 1 t) = Inr kn \<and>
      (case qk_transform self of None \<Rightarrow> Inr (qn, kn) | Some f \<Rightarrow> f qn kn 0 0) = Inr (q', k') \<and>
      q = to_dtype (dtype (select 2 2 t)) q' \<and>
      k = to_dtype (dtype (select 2 2 t)) k' \<and>
      v = select 2 2 t"
proof -
  from assms obtain B N C where sh: "shape x = [B, N, C]"
    by (auto simp add: FlashSigmoidAttention_kernel_args_def split: list.splits)
  from assms obtain y where y: "qkv self x = Inr y"
    by (auto simp add: FlashSigmoidAttention_kernel_args_def sh and_then_eq_Inr)
  from assms y obtain hd where hd: "floordiv (int C) (num_heads self) = Inr hd"
    by (auto simp add: FlashSigmoidAttention_kernel_args_def sh and_then_eq_Inr)
  then have hd_eq: "hd = int C div num_heads self"
    by (auto simp add: floordiv_def split: if_splits)
  from assms y hd obtain t where t: "reshape y [int B, int N, 3, num_heads self, hd] = Inr t"
    by (auto simp add: FlashSigmoidAttention_kernel_args_def sh and_then_eq_Inr)
  have parts: "unbind 2 t = Inr [select 2 0 t, select 2 1 t, select 2 2 t]"
    using unbind_reshape5 [OF t] by (simp add: upt_0_3)
  from assms obtain qn kn q' k' where
    "q_norm self (select 2 0 t) = Inr qn" "k_norm self (select 2 1 t) = Inr kn"
    "(case qk_transform self of None \<Rightarrow> Inr (qn, kn) | Some f \<Rightarrow> f qn kn 0 0) = Inr (q', k')"
    "q = to_dtype (dtype (select 2 2 t)) q'" "k = to_dtype (dtype (select 2 2 t)) k'"
    "v = select 2 2 t"
    by (auto simp add: FlashSigmoidAttention_kernel_args_def sh y hd t parts and_then_eq_Inr)
  with y t hd_eq sh show ?thesis by auto
qed

lemma cross_kernel_args_Inr:
  assumes "FlashSigmoidCrossAttention_kernel_args self xq xkv = Inr (q, k, v)"
  shows "\<exists>y1 tq y2 t qn kn vn q' k'.
      q_proj self xq = Inr y1 \<and>
      reshape y1 [int (shape xq ! 0), int (shape xq ! 1), num_heads self, head_dim_q self]
        = Inr tq \<and>
      kv_proj self xkv = Inr y2 \<and>
      reshape y2 [int (shape xkv ! 0), int (shape xkv ! 1), 2, num_heads self, head_dim_kv self]
        = Inr t \<and>
      q_norm self tq = Inr qn \<and>
      k_norm self (select 2 0 t) = Inr kn \<and>
      v_norm self (select 2 1 t) = Inr vn \<and>
      (case qk_transform self of None \<Rightarrow> Inr (qn, kn) | Some f \<Rightarrow> f qn kn 0 0) = Inr (q', k') \<and>
      q = to_dtype (dtype vn) q' \<and>
      k = to_dtype (dtype vn) k' \<and>
      v = vn"
proof -
  from assms obtain y1 where y1: "q_proj self xq = Inr y1"
    by (auto simp add: FlashSigmoidCrossAttention_kernel_args_def and_then_eq_Inr)
  from assms y1 obtain s0 s1 where s: "shape_at xq 0 = Inr s0" "shape_at xq (Suc 0) = Inr s1"
    by (auto simp add: FlashSigmoidCrossAttention_kernel_args_def and_then_eq_Inr)
  then have s_eq: "s0 = int (shape xq ! 0)" "s1 = int (shape xq ! 1)"
    by (auto simp add: shape_at_def split: if_splits)
  from assms y1 s obtain tq where
    tq: "reshape y1 [s0, s1, num_heads self, head_dim_q self] = Inr tq"
    by (auto simp add: FlashSigmoidCrossAttention_kernel_args_def and_then_eq_Inr)
  from assms y1 s tq obtain y2 where y2: "kv_proj self xkv = Inr y2"
    by (auto simp add: FlashSigmoidCrossAttention_kernel_args_def and_then_eq_Inr)
  from assms y1 s tq y2 obtain r0 r1 where r: "shape_at xkv 0 = Inr r0" "shape_at xkv (Suc 0) = Inr r1"
    by (auto simp add: FlashSigmoidCrossAttention_kernel_args_def and_then_eq_Inr)
  then have r_eq: "r0 = int (shape xkv ! 0)" "r1 = int (shape xkv ! 1)"
    by (auto simp add: shape_at_def split: if_splits)
  from assms y1 s tq y2 r obtain t where
    t: "reshape y2 [r0, r1, 2, num_heads self, head_dim_kv self] = Inr t"
    by (auto simp add: FlashSigmoidCrossAttention_kernel_args_def and_then_eq_Inr)
  have parts: "unbind 2 t = Inr [select 2 0 t, select 2 1 t]"
    using unbind_reshape5 [OF t] by (simp add: upt_0_2)
  from assms obtain qn kn vn q' k' where
    "q_norm self tq = Inr qn" "k_norm self (select 2 0 t) = Inr kn"
    "v_norm self (select 2 1 t) = Inr vn"
    "(case qk_transform self of None \<Rightarrow> Inr (qn, kn) | Some f \<Rightarrow> f qn kn 0 0) = Inr (q', k')"
    "q = to_dtype (dtype vn) q'" "k = to_dtype (dtype vn) k'" "v = vn"
    by (auto simp add: FlashSigmoidCrossAttention_kernel_args_def y1 s tq y2 r t parts
        and_then_eq_Inr)
  with y1 tq y2 t s_eq r_eq show ?thesis by auto
qed



lemma self_kernel_args_update [simp]:
  "FlashSigmoidAttention_kernel_args (self\<lparr>which_flash_attn := fa\<rparr>) x
     = FlashSigmoidAttention_kernel_args self x"
  by (simp add: FlashSigmoidAttention_kernel_args_def cong: list.case_cong)

lemma cross_kernel_args_update [simp]:
  "FlashSigmoidCrossAttention_kernel_args (self\<lparr>which_flash_attn := fa\<rparr>) xq xkv
     = FlashSigmoidCrossAttention_kernel_args self xq xkv"
  by (simp add: FlashSigmoidCrossAttention_kernel_args_def cong: list.case_cong)

lemma attend_and_project_Inr:
  assumes "attend_and_project self rs (q, k, v) = Inr out"
  shows "dom out = {''attn_times_v'', ''attn_proj''} \<and>
     (\<exists>a p. which_flash_attn self rs q k v (attn_drop self) (causal self) (window_size self)
               (alibi_slopes self) (sigmoid_bias self) = Inr a \<and>
            proj self a = Inr p \<and>
            out ''attn_times_v'' = Some a \<and>
            out ''attn_proj''
              = Some (Dropout_forward (proj_drop self) (training self) (proj_keep rs) p))"
proof -
  from assms obtain a p where
    a: "which_flash_attn self rs q k v (attn_drop self) (causal self) (window_size self)
          (alibi_slopes self) (sigmoid_bias self) = Inr a"
    and p: "proj self a = Inr p"
    and out: "out = Map.empty(''attn_times_v'' \<mapsto> a,
                ''attn_proj'' \<mapsto> Dropout_forward (proj_drop self) (training self) (proj_keep rs) p)"
    by (auto simp add: attend_and_project_def and_then_def Let_def split: sum.splits)
  have "dom out = {''attn_times_v'', ''attn_proj''}"
    unfolding out by auto
  moreover have "out ''attn_times_v'' = Some a" "out ''attn_proj''
      = Some (Dropout_forward (proj_drop self) (training self) (proj_keep rs) p)"
    unfolding out by simp_all
  ultimately show ?thesis using a p by blast
qed

lemma attend_uniform_precision:
  assumes "dtype q = dtype v" and "dtype k = dtype v"
  shows "attend_and_project (self\<lparr>which_flash_attn := uniform_precision_only (which_flash_attn self)\<rparr>)
           rs (q, k, v)
       = attend_and_project self rs (q, k, v)"
  using assms by (simp add: attend_and_project_def uniform_precision_only_def)

lemma attend_and_project_qk_transform [simp]:
  "attend_and_project (self\<lparr>qk_transform := xf\<rparr>) rs = attend_and_project self rs"
  by (rule ext) (simp add: attend_and_project_def split: prod.splits)

lemma self_kernel_args_transform:
  "FlashSigmoidAttention_kernel_args (self\<lparr>qk_transform := Some f\<rparr>) x
     = FlashSigmoidAttention_kernel_args
         (self\<lparr>qk_transform := Some (\<lambda>q k q_pos_offset k_pos_offset. f q k 0 0)\<rparr>) x"
  "FlashSigmoidAttention_kernel_args (self\<lparr>qk_transform := None\<rparr>) x
     = FlashSigmoidAttention_kernel_args
         (self\<lparr>qk_transform := Some (\<lambda>q k q_pos_offset k_pos_offset. Inr (q, k))\<rparr>) x"
  by (simp_all add: FlashSigmoidAttention_kernel_args_def cong: list.case_cong)

lemma cross_kernel_args_transform:
  "FlashSigmoidCrossAttention_kernel_args (self\<lparr>qk_transform := Some f\<rparr>) xq xkv
     = FlashSigmoidCrossAttention_kernel_args
         (self\<lparr>qk_transform := Some (\<lambda>q k q_pos_offset k_pos_offset. f q k 0 0)\<rparr>) xq xkv"
  "FlashSigmoidCrossAttention_kernel_args (self\<lparr>qk_transform := None\<rparr>) xq xkv
     = FlashSigmoidCrossAttention_kernel_args
         (self\<lparr>qk_transform := Some (\<lambda>q k q_pos_offset k_pos_offset. Inr (q, k))\<rparr>) xq xkv"
  by (simp_all add: FlashSigmoidCrossAttention_kernel_args_def cong: list.case_cong)

section \<open>Scaling, and the result of the kernel\<close>

lemma qk_dot_mul_scalar:
  "qk_dot (mul_scalar q s) (mul_scalar k s) D b h i j = qk_dot q k D b h i j * (s * s)"
proof -
  have "(\<Sum>d\<leftarrow>xs. elem q [b, i, h, d] * s * (elem k [b, j, h, d] * s))
      = (\<Sum>d\<leftarrow>xs. elem q [b, i, h, d] * elem k [b, j, h, d]) * (s * s)" for xs
    by (induction xs) (simp_all add: algebra_simps)
  then show ?thesis
    by (simp add: qk_dot_def mul_scalar_def)
qed

lemma quarter_powers:
  assumes "0 < D"
  shows "real D powr (- (1 / 4)) * real D powr (- (1 / 4)) = real D powr (- (1 / 2))"
proof -
  have "real D powr (- (1 / 4)) * real D powr (- (1 / 4)) = real D powr (- (1 / 4) + - (1 / 4))"
    by (simp only: powr_add)
  also have "- (1 / 4) + - (1 / 4) = (- (1 / 2) :: real)" by simp
  finally show ?thesis .
qed

lemma attn_weight_prescaled:
  assumes "0 < D"
  shows "attn_weight (mul_scalar q (real D powr (- (1 / 4)))) (mul_scalar k (real D powr (- (1 / 4))))
           1 slopes sb seq_q seq_kv D b h i j
       = attn_weight q k (real D powr (- (1 / 2))) slopes sb seq_q seq_kv D b h i j"
  by (simp add: attn_weight_def qk_dot_mul_scalar quarter_powers [OF assms])

lemma last_of_four: "length xs = 4 \<Longrightarrow> xs ! 3 = last xs"
proof -
  assume l: "length xs = 4"
  then have "xs \<noteq> []" by auto
  then have "last xs = xs ! (length xs - 1)" by (rule last_conv_nth)
  with l show ?thesis by simp
qed

lemma shape_mul_scalar [simp]: "shape (mul_scalar t s) = shape t"
  by (simp add: mul_scalar_def)

lemma dtype_mul_scalar [simp]: "dtype (mul_scalar t s) = dtype t"
  by (simp add: mul_scalar_def)

lemma kernel_prescaled:
  assumes "shape q \<noteq> []" and "0 < last (shape q)"
  shows "flash_attn_sigmoid_func rs
           (mul_scalar q (real (last (shape q)) powr (- (1 / 4))))
           (mul_scalar k (real (last (shape q)) powr (- (1 / 4))))
           v (Some 1) p ws slopes c sb
       = flash_attn_sigmoid_func rs q k v (Some (real (last (shape q)) powr (- (1 / 2)))) p ws
           slopes c sb"
proof (cases "length (shape q) = 4")
  case False
  then show ?thesis by (simp add: flash_attn_sigmoid_func_def)
next
  case True
  then have D: "shape q ! 3 = last (shape q)"
    by (rule last_of_four)
  show ?thesis
    using assms(2)
    by (simp add: flash_attn_sigmoid_func_def Let_def D attn_weight_prescaled)
qed

lemma kernel_default_scale:
  assumes "shape q \<noteq> []"
  shows "flash_attn_sigmoid_func rs q k v None p ws slopes c sb
       = flash_attn_sigmoid_func rs q k v (Some (real (last (shape q)) powr (- (1 / 2)))) p ws
           slopes c sb"
proof (cases "length (shape q) = 4")
  case False
  then show ?thesis by (simp add: flash_attn_sigmoid_func_def)
next
  case True
  then have D: "shape q ! 3 = last (shape q)"
    by (rule last_of_four)
  show ?thesis
    by (simp add: flash_attn_sigmoid_func_def Let_def D)
qed

lemma sigmoid_bounds: "0 < sigmoid x \<and> sigmoid x < 1"
proof -
  have "0 < exp (- x)" by simp
  then show ?thesis by (simp add: sigmoid_def add_pos_pos)
qed

lemma sigmoid_zero: "sigmoid 0 = 1 / 2"
  by (simp add: sigmoid_def)

lemma kernel_result:
  assumes "shape q = [B, Sq, H, D]" and "shape k = [B, Sk, H, D]" and "shape v = [B, Sk, H, D]"
    and "slopes_fit slopes B H" and "- 1 \<le> fst ws" and "- 1 \<le> snd ws"
    and "dtype k = dtype q" and "dtype v = dtype q"
  shows "flash_attn_sigmoid_func rs q k v (Some s) p ws slopes c sb =
     Inr \<lparr>shape = [B, Sq, H, D], dtype = dtype q,
          elem = (\<lambda>idx.
            case idx of
              [b, i, h, d] \<Rightarrow>
                (\<Sum>j\<leftarrow>filter (unmasked c ws Sq Sk i) [0 ..< Sk].
                   dropout_weight p (attn_keep rs b h i j)
                     (attn_weight q k s slopes sb Sq Sk D b h i j)
                   * elem v [b, j, h, d])
            | _ \<Rightarrow> 0)\<rparr>"
  using assms by (simp add: flash_attn_sigmoid_func_def Let_def)

lemma flash2_sigmoid_attn_result:
  assumes "shape q = [B, Sq, H, D]" and "shape k = [B, Sk, H, D]" and "shape v = [B, Sk, H, D]"
    and "0 < D"
    and "slopes_fit slopes B H" and "- 1 \<le> fst ws" and "- 1 \<le> snd ws"
    and "dtype k = dtype q" and "dtype v = dtype q"
  shows "\<exists>out. flash2_sigmoid_attn flash_attn_sigmoid_func rs q k v sb p ws slopes c prescale
            = Inr out \<and>
     shape out = [B, Sq, H * D] \<and> dtype out = dtype q \<and>
     (\<forall>b i h d. d < D \<longrightarrow>
        elem out [b, i, h * D + d] =
          (\<Sum>j\<leftarrow>filter (unmasked c ws Sq Sk i) [0 ..< Sk].
             dropout_weight p (attn_keep rs b h i j)
               (attn_weight q k (real D powr (- (1 / 2))) slopes sb Sq Sk D b h i j)
             * elem v [b, j, h, d]))"
proof -
  have ne: "shape q \<noteq> []" and last: "last (shape q) = D"
    using assms(1) by simp_all
  have pos: "0 < last (shape q)" using last assms(4) by simp
  have "flash2_sigmoid_attn flash_attn_sigmoid_func rs q k v sb p ws slopes c prescale
      = and_then (flash_attn_sigmoid_func rs q k v (Some (real D powr (- (1 / 2)))) p ws slopes c sb)
          flatten2"
    using kernel_prescaled [OF ne pos, of rs k v p ws slopes c sb]
      kernel_default_scale [OF ne, of rs k v p ws slopes c sb] assms(4)
    by (cases prescale)
      (simp_all add: flash2_sigmoid_attn_def size_last_def pow_neg_quarter_def ne last)
  also have "\<dots> = flatten2 \<lparr>shape = [B, Sq, H, D], dtype = dtype q,
          elem = (\<lambda>idx.
            case idx of
              [b, i, h, d] \<Rightarrow>
                (\<Sum>j\<leftarrow>filter (unmasked c ws Sq Sk i) [0 ..< Sk].
                   dropout_weight p (attn_keep rs b h i j)
                     (attn_weight q k (real D powr (- (1 / 2))) slopes sb Sq Sk D b h i j)
                   * elem v [b, j, h, d])
            | _ \<Rightarrow> 0)\<rparr>"
    by (simp add: kernel_result [OF assms(1-3) assms(5-9)])
  finally show ?thesis
    using assms(4) by (simp add: flatten2_def)
qed

lemma mismatched_head_dims:
  assumes "shape q = [B, Sq, H, D]" and "0 < D" and "shape k = [Bk, Sk, Hk, Dk]"
    and "Dk \<noteq> D"
  shows "default_flash_attn flash_attn_sigmoid_func rs q k v ad c ws al sb = Inl ShapeMismatch"
proof -
  have "flash_attn_sigmoid_func rs (mul_scalar q s) (mul_scalar k s) v (Some 1) ad ws al c sb
      = Inl ShapeMismatch" for s
    using assms by (simp add: flash_attn_sigmoid_func_def Let_def)
  then show ?thesis
    using assms(1,2)
    by (simp add: default_flash_attn_def flash2_sigmoid_attn_def size_last_def
        pow_neg_quarter_def)
qed

section \<open>The packed scale factor\<close>

lemma fused_scale_factor_result:
  assumes "shape t \<noteq> []" and "0 < last (shape t)"
  shows "fused_scale_factor t =
     Inr \<lparr>shape = [1, 1, 3, 1, 1], dtype = dtype t,
          elem = (\<lambda>idx. if 2 < length idx \<and> idx ! 2 < 2
                         then real (last (shape t)) powr (- (1 / 4)) else 1)\<rparr>"
  using assms
  by (simp add: fused_scale_factor_def size_last_def pow_neg_quarter_def imul_slice2_butlast_def
      ones_def cong: if_cong)

lemma broadcast_packed:
  "broadcast_rev (rev [B, N, 3, H, D]) (rev [1, 1, 3, 1, 1]) = Some (rev [B, N, 3, H, D])"
  by simp

lemma broadcast_index_in_range:
  assumes "b < B" "n < N" "h < H" "d < D"
  shows "broadcast_index [B, N, 3, H, D] [b, n, c, h, d] = [b, n, c, h, d]"
  using assms by (auto simp add: broadcast_index_def)

lemma broadcast_index_scale:
  "broadcast_index [Suc 0, Suc 0, 3, Suc 0, Suc 0] [b, n, c, h, d] = [0, 0, c, 0, 0]"
  by (simp add: broadcast_index_def)

section \<open>The example layers at work\<close>



lemma mismatched_cross_layer_init:
  "FlashSigmoidCrossAttention_init 4 2 0 False 2 False False 0 0 (- 1, - 1) None nn_LayerNorm
     example_linear None (default_flash_attn flash_attn_sigmoid_func)
   = Inr mismatched_cross_layer"
  by (simp add: FlashSigmoidCrossAttention_init_def mismatched_cross_layer_def example_linear_def
      nn_Linear_def nn_LayerNorm_def nn_Dropout_def)

lemma example_self_args:
  "\<exists>q k v. FlashSigmoidAttention_kernel_args example_self_layer (constant_tensor [1, 1, 2] 1)
     = Inr (q, k, v) \<and> shape q = [1, 1, 1, 2] \<and> shape k = [1, 1, 1, 2] \<and> shape v = [1, 1, 1, 2]
     \<and> dtype q = float16 \<and> dtype k = float16 \<and> dtype v = float16"
  by (simp add: FlashSigmoidAttention_kernel_args_def example_self_layer_def constant_tensor_def
      Linear_forward_def LayerNorm_forward_def floordiv_def reshape_def unbind_def select_def
      to_dtype_def upt_0_3)

lemma example_cross_args:
  "\<exists>q k v. FlashSigmoidCrossAttention_kernel_args example_cross_layer
       (constant_tensor [1, 1, 2] 1) (constant_tensor [1, 3, 2] 1)
     = Inr (q, k, v) \<and> shape q = [1, 1, 1, 2] \<and> shape k = [1, 3, 1, 2] \<and> shape v = [1, 3, 1, 2]
     \<and> dtype q = float16 \<and> dtype k = float16 \<and> dtype v = float16"
  by (simp add: FlashSigmoidCrossAttention_kernel_args_def example_cross_layer_def
      constant_tensor_def Linear_forward_def LayerNorm_forward_def nn_Identity_def shape_at_def
      reshape_def unbind_def select_def to_dtype_def upt_0_2)

lemma upcast_self_args:
  "\<exists>q k v. FlashSigmoidAttention_kernel_args (example_self_layer\<lparr>q_norm := upcast_norm\<rparr>)
       (constant_tensor [1, 1, 2] 1) = Inr (q, k, v) \<and> dtype v = float16"
  by (simp add: FlashSigmoidAttention_kernel_args_def example_self_layer_def constant_tensor_def
      Linear_forward_def LayerNorm_forward_def upcast_norm_def floordiv_def reshape_def
      unbind_def select_def to_dtype_def upt_0_3)

lemma offset_self_args:
  "\<exists>q k v. FlashSigmoidAttention_kernel_args
       (example_self_layer\<lparr>qk_transform := Some offset_scaling\<rparr>)
       (constant_tensor [1, 1, 2] 1) = Inr (q, k, v)"
  by (simp add: FlashSigmoidAttention_kernel_args_def example_self_layer_def constant_tensor_def
      Linear_forward_def LayerNorm_forward_def offset_scaling_def floordiv_def reshape_def
      unbind_def select_def to_dtype_def upt_0_3)

lemma mismatched_cross_args:
  "\<exists>q k v. FlashSigmoidCrossAttention_kernel_args mismatched_cross_layer
       (constant_tensor [1, 1, 4] 1) (constant_tensor [1, 1, 2] 1)
     = Inr (q, k, v) \<and> shape q = [1, 1, 2, 2] \<and> shape k = [1, 1, 2, 1] \<and> shape v = [1, 1, 2, 1]"
  by (simp add: FlashSigmoidCrossAttention_kernel_args_def mismatched_cross_layer_def
      constant_tensor_def Linear_forward_def LayerNorm_forward_def nn_Identity_def shape_at_def
      reshape_def unbind_def select_def to_dtype_def upt_0_2)

lemma attend_example:
  assumes "shape q = [1, 1, 1, 2]" "shape k = [1, Sk, 1, 2]" "shape v = [1, Sk, 1, 2]"
    "dtype k = dtype q" "dtype v = dtype q"
    and "which_flash_attn self = default_flash_attn flash_attn_sigmoid_func"
    and "proj self = Linear_forward (\<lambda>j i. 1) (\<lambda>j. 0) 2 2 False"
    and "window_size self = (- 1, - 1)" "alibi_slopes self = None"
  shows "\<exists>out. attend_and_project self rs (q, k, v) = Inr out"
proof -
  from flash2_sigmoid_attn_result [OF assms(1-3), of None "(- 1, - 1)" rs "sigmoid_bias self"
    "attn_drop self" "causal self" True] assms(4,5)
  obtain a where a: "flash2_sigmoid_attn flash_attn_sigmoid_func rs q k v (sigmoid_bias self)
      (attn_drop self) (- 1, - 1) None (causal self) True = Inr a" and sh: "shape a = [1, 1, 2]"
    by (auto simp add: slopes_fit_def)
  show ?thesis
    by (simp add: attend_and_project_def assms(6-9) default_flash_attn_def a Linear_forward_def sh
        Let_def)
qed

lemma example_self_forward:
  "\<exists>out. FlashSigmoidAttention_forward example_self_layer keep_all (constant_tensor [1, 1, 2] 1)
     ([] :: (string \<times> unit) list) = Inr out"
proof -
  from example_self_args obtain q k v where
    args: "FlashSigmoidAttention_kernel_args example_self_layer (constant_tensor [1, 1, 2] 1)
      = Inr (q, k, v)"
    and sh: "shape q = [1, 1, 1, 2]" "shape k = [1, 1, 1, 2]" "shape v = [1, 1, 1, 2]"
    and dt: "dtype k = dtype q" "dtype v = dtype q"
    by auto
  from attend_example [OF sh dt, of example_self_layer keep_all]
  obtain out where o: "attend_and_project example_self_layer keep_all (q, k, v) = Inr out"
    by (auto simp add: example_self_layer_def)
  have "FlashSigmoidAttention_forward example_self_layer keep_all (constant_tensor [1, 1, 2] 1)
      ([] :: (string \<times> unit) list) = Inr out"
    unfolding FlashSigmoidAttention_forward_def args and_then_Inr by (fact o)
  then show ?thesis by (intro exI)
qed

lemma example_cross_forward:
  "\<exists>out. FlashSigmoidCrossAttention_forward example_cross_layer keep_all
       (constant_tensor [1, 1, 2] 1) (constant_tensor [1, 3, 2] 1) ([] :: (string \<times> unit) list)
     = Inr out"
proof -
  from example_cross_args obtain q k v where
    args: "FlashSigmoidCrossAttention_kernel_args example_cross_layer
       (constant_tensor [1, 1, 2] 1) (constant_tensor [1, 3, 2] 1) = Inr (q, k, v)"
    and sh: "shape q = [1, 1, 1, 2]" "shape k = [1, 3, 1, 2]" "shape v = [1, 3, 1, 2]"
    and dt: "dtype k = dtype q" "dtype v = dtype q"
    by auto
  from attend_example [OF sh dt, of example_cross_layer keep_all]
  obtain out where o: "attend_and_project example_cross_layer keep_all (q, k, v) = Inr out"
    by (auto simp add: example_cross_layer_def)
  have "FlashSigmoidCrossAttention_forward example_cross_layer keep_all
       (constant_tensor [1, 1, 2] 1) (constant_tensor [1, 3, 2] 1) ([] :: (string \<times> unit) list)
     = Inr out"
    unfolding FlashSigmoidCrossAttention_forward_def args and_then_Inr by (fact o)
  then show ?thesis by (intro exI)
qed

lemma four_powr_neg_half: "real 4 powr (- (1 / 2)) = 1 / 2"
proof -
  have a: "real 4 powr (- (1 / 2)) = inverse (real 4 powr (1 / 2))"
    by (rule powr_minus)
  have b: "real 4 powr (1 / 2) = sqrt (real 4)"
    by (rule powr_half_sqrt) simp
  have c: "sqrt (real 4) = 2"
    using real_sqrt_four by simp
  show ?thesis
    unfolding a b c by simp
qed

lemma four_powr_neg_half': "(4::real) powr (- (1 / 2)) = 1 / 2"
  using four_powr_neg_half by simp

section \<open>The sigmoid weighting\<close>

text \<open>
  Claim C1. For \<open>q\<close> of shape \<open>(B, Sq, H, D)\<close> and \<open>k\<close>, \<open>v\<close> of shape \<open>(B, Sk, H, D)\<close> with
  \<open>D > 0\<close>, at one precision, with fitting slopes and window bounds from \<open>-1\<close> up,
  \<^verbatim>\<open>flash2_sigmoid_attn\<close> with the kernel returns a tensor of shape \<open>(B, Sq, H * D)\<close>. Its
  entry for query \<open>i\<close>, head \<open>h\<close> and component \<open>d\<close> is the sum, over the keys \<open>j\<close> that are
  not masked out, of \<open>weight(i, j) * v_j\<close>, where the weight is
  \<open>sigmoid((q_i \<cdot> k_j) * D ** (-0.5) + alibi_bias(i, j) + sigmoid_bias)\<close> on either scaling
  path, put through dropout when dropout is enabled (a dropped weight is zeroed, a kept one
  divided by \<open>1 - attn_drop\<close>) and as it is when \<open>attn_drop = 0\<close>. The weights of a query
  are not made to sum to 1: without dropout, a query all of whose keys but one are masked
  out has the output \<open>sigmoid(logit) * v_j\<close> for that key, which is not \<open>v_j\<close> unless \<open>v_j\<close>
  is 0.
\<close>

theorem sigmoid_weights_and_output:
  assumes "shape q = [B, Sq, H, D]" and "shape k = [B, Sk, H, D]" and "shape v = [B, Sk, H, D]"
    and "0 < D"
    and "slopes_fit slopes B H" and "- 1 \<le> fst ws" and "- 1 \<le> snd ws"
    and "dtype k = dtype q" and "dtype v = dtype q"
  shows "\<exists>out. flash2_sigmoid_attn flash_attn_sigmoid_func rs q k v sb p ws slopes c prescale
            = Inr out \<and>
     shape out = [B, Sq, H * D] \<and>
     (\<forall>b i h d. d < D \<longrightarrow>
        elem out [b, i, h * D + d] =
          (\<Sum>j\<leftarrow>filter (unmasked c ws Sq Sk i) [0 ..< Sk].
             dropout_weight p (attn_keep rs b h i j)
               (sigmoid (qk_dot q k D b h i j * real D powr (- (1 / 2))
                         + alibi_bias slopes Sq Sk b h i j + sb))
             * elem v [b, j, h, d])) \<and>
     (p = 0 \<longrightarrow>
        (\<forall>b i h d. d < D \<longrightarrow>
           elem out [b, i, h * D + d] =
             (\<Sum>j\<leftarrow>filter (unmasked c ws Sq Sk i) [0 ..< Sk].
                sigmoid (qk_dot q k D b h i j * real D powr (- (1 / 2))
                         + alibi_bias slopes Sq Sk b h i j + sb)
                * elem v [b, j, h, d]))) \<and>
     (p = 0 \<longrightarrow>
        (\<forall>b i h d j. d < D \<and> filter (unmasked c ws Sq Sk i) [0 ..< Sk] = [j] \<longrightarrow>
           elem out [b, i, h * D + d] =
             sigmoid (qk_dot q k D b h i j * real D powr (- (1 / 2))
                      + alibi_bias slopes Sq Sk b h i j + sb)
             * elem v [b, j, h, d] \<and>
           (elem v [b, j, h, d] \<noteq> 0 \<longrightarrow> elem out [b, i, h * D + d] \<noteq> elem v [b, j, h, d])))"
proof -
  from flash2_sigmoid_attn_result [OF assms, of rs sb p c prescale]
  obtain out where
    r: "flash2_sigmoid_attn flash_attn_sigmoid_func rs q k v sb p ws slopes c prescale = Inr out"
    and sh: "shape out = [B, Sq, H * D]"
    and el: "\<And>b i h d. d < D \<Longrightarrow>
        elem out [b, i, h * D + d] =
          (\<Sum>j\<leftarrow>filter (unmasked c ws Sq Sk i) [0 ..< Sk].
             dropout_weight p (attn_keep rs b h i j)
               (attn_weight q k (real D powr (- (1 / 2))) slopes sb Sq Sk D b h i j)
             * elem v [b, j, h, d])"
    by blast
  have general: "\<forall>b i h d. d < D \<longrightarrow>
        elem out [b, i, h * D + d] =
          (\<Sum>j\<leftarrow>filter (unmasked c ws Sq Sk i) [0 ..< Sk].
             dropout_weight p (attn_keep rs b h i j)
               (sigmoid (qk_dot q k D b h i j * real D powr (- (1 / 2))
                         + alibi_bias slopes Sq Sk b h i j + sb))
             * elem v [b, j, h, d])"
    using el by (simp add: attn_weight_def)
  have no_dropout: "p = 0 \<longrightarrow>
        (\<forall>b i h d. d < D \<longrightarrow>
           elem out [b, i, h * D + d] =
             (\<Sum>j\<leftarrow>filter (unmasked c ws Sq Sk i) [0 ..< Sk].
                sigmoid (qk_dot q k D b h i j * real D powr (- (1 / 2))
                         + alibi_bias slopes Sq Sk b h i j + sb)
                * elem v [b, j, h, d]))"
    using el by (simp add: attn_weight_def dropout_weight_def)
  have one_key: "p = 0 \<longrightarrow>
        (\<forall>b i h d j. d < D \<and> filter (unmasked c ws Sq Sk i) [0 ..< Sk] = [j] \<longrightarrow>
           elem out [b, i, h * D + d] =
             sigmoid (qk_dot q k D b h i j * real D powr (- (1 / 2))
                      + alibi_bias slopes Sq Sk b h i j + sb)
             * elem v [b, j, h, d] \<and>
           (elem v [b, j, h, d] \<noteq> 0 \<longrightarrow> elem out [b, i, h * D + d] \<noteq> elem v [b, j, h, d]))"
  proof (intro impI allI, elim conjE)
    fix b i h d j
    assume p: "p = 0" and d: "d < D"
      and one: "filter (unmasked c ws Sq Sk i) [0 ..< Sk] = [j]"
    let ?w = "sigmoid (qk_dot q k D b h i j * real D powr (- (1 / 2))
                      + alibi_bias slopes Sq Sk b h i j + sb)"
    have e: "elem out [b, i, h * D + d] = ?w * elem v [b, j, h, d]"
      using el [OF d, of b i h] p
      by (simp add: one attn_weight_def dropout_weight_def)
    have "?w < 1" using sigmoid_bounds by blast
    then have "elem v [b, j, h, d] \<noteq> 0 \<longrightarrow> ?w * elem v [b, j, h, d] \<noteq> elem v [b, j, h, d]"
      by simp
    with e show "elem out [b, i, h * D + d] = ?w * elem v [b, j, h, d] \<and>
           (elem v [b, j, h, d] \<noteq> 0 \<longrightarrow> elem out [b, i, h * D + d] \<noteq> elem v [b, j, h, d])"
      by simp
  qed
  from r sh general no_dropout one_key show ?thesis
    by (intro exI conjI) assumption+
qed

text \<open>
  Two queries and two keys of head dimension 4 under the causal mask, with \<open>q = k = 1\<close>,
  slope 1, \<open>sigmoid_bias = -2\<close> and \<open>v_j = j + 1\<close>. Query 0 sees key 0 only, with logit
  \<open>4 / 2 - 0 - 2 = 0\<close>: its output is \<open>1/2\<close>, not \<open>v_0 = 1\<close>. Query 1 sees both keys, with
  logits \<open>-1\<close> and \<open>0\<close>: its output is \<open>sigmoid(-1) * 1 + 1/2 * 2\<close>. With \<open>attn_drop = 1/2\<close>
  and every weight kept, the weight of query 0 is doubled and its output is 1.
\<close>

theorem sigmoid_weights_and_output_witness:
  "(\<exists>out. flash2_sigmoid_attn flash_attn_sigmoid_func keep_all (constant_tensor [1, 2, 1, 4] 1)
       (constant_tensor [1, 2, 1, 4] 1) (position_values [1, 2, 1, 4]) (- 2) 0 (- 1, - 1)
       (Some (constant_tensor [1] 1)) True True = Inr out \<and>
     shape out = [1, 2, 4] \<and>
     elem out [0, 0, 0] = 1 / 2 \<and>
     elem out [0, 0, 0] \<noteq> elem (position_values [1, 2, 1, 4]) [0, 0, 0, 0] \<and>
     elem out [0, 1, 0] = sigmoid (- 1) + 1) \<and>
   (\<exists>out. flash2_sigmoid_attn flash_attn_sigmoid_func keep_all (constant_tensor [1, 2, 1, 4] 1)
       (constant_tensor [1, 2, 1, 4] 1) (position_values [1, 2, 1, 4]) (- 2) (1 / 2) (- 1, - 1)
       (Some (constant_tensor [1] 1)) True True = Inr out \<and>
     elem out [0, 0, 0] = 1)"
proof -
  have sq: "shape (constant_tensor [1, 2, 1, 4] 1) = [1, 2, 1, 4]"
    and sv: "shape (position_values [1, 2, 1, 4]) = [1, 2, 1, 4]"
    and pos: "(0::nat) < 4"
    and fit: "slopes_fit (Some (constant_tensor [1] 1)) 1 1"
    and w1: "- 1 \<le> fst (- 1 :: int, - 1 :: int)" and w2: "- 1 \<le> snd (- 1 :: int, - 1 :: int)"
    and dk: "dtype (constant_tensor [1, 2, 1, 4] 1) = dtype (constant_tensor [1, 2, 1, 4] 1)"
    and dv: "dtype (position_values [1, 2, 1, 4]) = dtype (constant_tensor [1, 2, 1, 4] 1)"
    by (simp_all add: constant_tensor_def position_values_def slopes_fit_def)
  have first_row: "filter (unmasked True (- 1, - 1) 2 2 0) [0 ..< 2] = [0]"
    by (simp add: unmasked_def upt_rec)
  have second_row: "filter (unmasked True (- 1, - 1) 2 2 (Suc 0)) [0 ..< 2] = [0, 1]"
    by (simp add: unmasked_def upt_rec)
  have dot: "qk_dot (constant_tensor sh 1) (constant_tensor sh' 1) 4 b h i j = 4"
    for sh sh' b h i j
    by (simp add: qk_dot_def constant_tensor_def upt_rec)
  have slope: "elem (constant_tensor sh 1) idx = 1" "shape (constant_tensor sh 1) = sh"
    for sh idx
    by (simp_all add: constant_tensor_def)
  from sigmoid_weights_and_output [OF sq sq sv pos fit w1 w2 dk dv, of keep_all "- 2" 0 True True]
  obtain out where
    r: "flash2_sigmoid_attn flash_attn_sigmoid_func keep_all (constant_tensor [1, 2, 1, 4] 1)
       (constant_tensor [1, 2, 1, 4] 1) (position_values [1, 2, 1, 4]) (- 2) 0 (- 1, - 1)
       (Some (constant_tensor [1] 1)) True True = Inr out"
    and sh: "shape out = [1, 2, 1 * 4]"
    and el: "\<forall>b i h d. d < 4 \<longrightarrow>
           elem out [b, i, h * 4 + d] =
             (\<Sum>j\<leftarrow>filter (unmasked True (- 1, - 1) 2 2 i) [0 ..< 2].
                sigmoid (qk_dot (constant_tensor [1, 2, 1, 4] 1) (constant_tensor [1, 2, 1, 4] 1)
                           4 b h i j * real 4 powr (- (1 / 2))
                         + alibi_bias (Some (constant_tensor [1] 1)) 2 2 b h i j + - 2)
                * elem (position_values [1, 2, 1, 4]) [b, j, h, d])"
    and one: "\<forall>b i h d j. d < 4 \<and> filter (unmasked True (- 1, - 1) 2 2 i) [0 ..< 2] = [j] \<longrightarrow>
           elem out [b, i, h * 4 + d] =
             sigmoid (qk_dot (constant_tensor [1, 2, 1, 4] 1) (constant_tensor [1, 2, 1, 4] 1)
                        4 b h i j * real 4 powr (- (1 / 2))
                      + alibi_bias (Some (constant_tensor [1] 1)) 2 2 b h i j + - 2)
             * elem (position_values [1, 2, 1, 4]) [b, j, h, d] \<and>
           (elem (position_values [1, 2, 1, 4]) [b, j, h, d] \<noteq> 0 \<longrightarrow>
              elem out [b, i, h * 4 + d] \<noteq> elem (position_values [1, 2, 1, 4]) [b, j, h, d])"
    by blast
  from el [rule_format, where b = 0 and i = 0 and h = 0 and d = 0]
  have a: "elem out [0, 0, 0] = 1 / 2"
    by (simp add: first_row dot four_powr_neg_half' alibi_bias_def slope
        position_values_def sigmoid_zero)
  from one [rule_format, where b = 0 and i = 0 and h = 0 and d = 0 and j = 0] first_row
  have b: "elem out [0, 0, 0] \<noteq> elem (position_values [1, 2, 1, 4]) [0, 0, 0, 0]"
    by (simp add: position_values_def)
  from el [rule_format, where b = 0 and i = 1 and h = 0 and d = 0]
  have c: "elem out [0, 1, 0] = sigmoid (- 1) + 1"
    by (simp add: second_row dot four_powr_neg_half' alibi_bias_def slope
        position_values_def sigmoid_zero)
  from sh have sh': "shape out = [1, 2, 4]" by simp
  from r sh' a b c have first: "\<exists>out.
     flash2_sigmoid_attn flash_attn_sigmoid_func keep_all (constant_tensor [1, 2, 1, 4] 1)
       (constant_tensor [1, 2, 1, 4] 1) (position_values [1, 2, 1, 4]) (- 2) 0 (- 1, - 1)
       (Some (constant_tensor [1] 1)) True True = Inr out \<and>
     shape out = [1, 2, 4] \<and>
     elem out [0, 0, 0] = 1 / 2 \<and>
     elem out [0, 0, 0] \<noteq> elem (position_values [1, 2, 1, 4]) [0, 0, 0, 0] \<and>
     elem out [0, 1, 0] = sigmoid (- 1) + 1"
    by (intro exI conjI)
  from sigmoid_weights_and_output [OF sq sq sv pos fit w1 w2 dk dv, of keep_all "- 2" "1 / 2" True
      True]
  obtain out' where
    r': "flash2_sigmoid_attn flash_attn_sigmoid_func keep_all (constant_tensor [1, 2, 1, 4] 1)
       (constant_tensor [1, 2, 1, 4] 1) (position_values [1, 2, 1, 4]) (- 2) (1 / 2) (- 1, - 1)
       (Some (constant_tensor [1] 1)) True True = Inr out'"
    and el': "\<forall>b i h d. d < 4 \<longrightarrow>
        elem out' [b, i, h * 4 + d] =
          (\<Sum>j\<leftarrow>filter (unmasked True (- 1, - 1) 2 2 i) [0 ..< 2].
             dropout_weight (1 / 2) (attn_keep keep_all b h i j)
               (sigmoid (qk_dot (constant_tensor [1, 2, 1, 4] 1) (constant_tensor [1, 2, 1, 4] 1)
                           4 b h i j * real 4 powr (- (1 / 2))
                         + alibi_bias (Some (constant_tensor [1] 1)) 2 2 b h i j + - 2))
             * elem (position_values [1, 2, 1, 4]) [b, j, h, d])"
    by blast
  from el' [rule_format, where b = 0 and i = 0 and h = 0 and d = 0]
  have a': "elem out' [0, 0, 0] = 1"
    by (simp add: first_row dot four_powr_neg_half' alibi_bias_def slope
        position_values_def sigmoid_zero dropout_weight_def keep_all_def)
  from r' a' have second: "\<exists>out.
     flash2_sigmoid_attn flash_attn_sigmoid_func keep_all (constant_tensor [1, 2, 1, 4] 1)
       (constant_tensor [1, 2, 1, 4] 1) (position_values [1, 2, 1, 4]) (- 2) (1 / 2) (- 1, - 1)
       (Some (constant_tensor [1] 1)) True True = Inr out \<and>
     elem out [0, 0, 0] = 1"
    by (intro exI conjI)
  from first second show ?thesis ..
qed

section \<open>Which of q, k and v are normalized\<close>



section \<open>The two scaling paths\<close>

text \<open>
  Claim C3. For all \<open>q\<close>, \<open>k\<close>, \<open>v\<close>, every policy and the same random state,
  \<^verbatim>\<open>flash2_sigmoid_attn\<close> returns the same with \<open>prescale = True\<close> (\<open>q\<close> and \<open>k\<close> each
  multiplied by \<open>head_dim ** (-0.25)\<close>, \<open>softmax_scale = 1.0\<close>) and with \<open>prescale = False\<close>
  (\<open>q\<close> and \<open>k\<close> as they are, \<open>softmax_scale = None\<close>), and both return what the reference
  returns, which scales the raw dot product by \<open>head_dim ** (-0.5)\<close>. Arithmetic is exact
  here, so equality up to rounding is equality; it includes the exceptions, which both
  paths raise alike.
\<close>

theorem prescale_paths_agree:
  "flash2_sigmoid_attn flash_attn_sigmoid_func rs q k v sb p ws slopes c True
     = flash2_sigmoid_attn flash_attn_sigmoid_func rs q k v sb p ws slopes c False \<and>
   flash2_sigmoid_attn flash_attn_sigmoid_func rs q k v sb p ws slopes c True
     = reference_sigmoid_attn flash_attn_sigmoid_func rs q k v sb p ws slopes c"
proof (cases "shape q = [] \<or> last (shape q) = 0")
  case True
  then show ?thesis
    by (auto simp add: flash2_sigmoid_attn_def reference_sigmoid_attn_def size_last_def
        pow_neg_quarter_def pow_neg_half_def)
next
  case False
  then have ne: "shape q \<noteq> []" and pos: "0 < last (shape q)" by simp_all
  show ?thesis
    using ne pos
    by (simp add: flash2_sigmoid_attn_def reference_sigmoid_attn_def size_last_def
        pow_neg_quarter_def pow_neg_half_def kernel_prescaled kernel_default_scale)
qed

text \<open>Two queries and three keys of head dimension 16: the three calls return one tensor.\<close>

theorem prescale_paths_agree_witness:
  "\<exists>out. flash2_sigmoid_attn flash_attn_sigmoid_func keep_all (constant_tensor [1, 2, 1, 16] 1)
       (constant_tensor [1, 3, 1, 16] 1) (constant_tensor [1, 3, 1, 16] 1) 0 0 (- 1, - 1) None True
       True = Inr out \<and>
     flash2_sigmoid_attn flash_attn_sigmoid_func keep_all (constant_tensor [1, 2, 1, 16] 1)
       (constant_tensor [1, 3, 1, 16] 1) (constant_tensor [1, 3, 1, 16] 1) 0 0 (- 1, - 1) None True
       False = Inr out \<and>
     reference_sigmoid_attn flash_attn_sigmoid_func keep_all (constant_tensor [1, 2, 1, 16] 1)
       (constant_tensor [1, 3, 1, 16] 1) (constant_tensor [1, 3, 1, 16] 1) 0 0 (- 1, - 1) None True
       = Inr out \<and>
     shape out = [1, 2, 16]"
proof -
  from flash2_sigmoid_attn_result [of "constant_tensor [1, 2, 1, 16] 1" 1 2 1 16
      "constant_tensor [1, 3, 1, 16] 1" 3 "constant_tensor [1, 3, 1, 16] 1" None "(- 1, - 1)"
      keep_all 0 0 True True]
  obtain out where
    r: "flash2_sigmoid_attn flash_attn_sigmoid_func keep_all (constant_tensor [1, 2, 1, 16] 1)
       (constant_tensor [1, 3, 1, 16] 1) (constant_tensor [1, 3, 1, 16] 1) 0 0 (- 1, - 1) None True
       True = Inr out"
    and sh: "shape out = [1, 2, 16]"
    by (auto simp add: constant_tensor_def slopes_fit_def)
  note inst = prescale_paths_agree [of keep_all "constant_tensor [1, 2, 1, 16] 1"
      "constant_tensor [1, 3, 1, 16] 1" "constant_tensor [1, 3, 1, 16] 1" 0 0 "(- 1, - 1)" None True]
  from inst [THEN conjunct1] r
  have a: "flash2_sigmoid_attn flash_attn_sigmoid_func keep_all (constant_tensor [1, 2, 1, 16] 1)
       (constant_tensor [1, 3, 1, 16] 1) (constant_tensor [1, 3, 1, 16] 1) 0 0 (- 1, - 1) None True
       False = Inr out"
    by simp
  from inst [THEN conjunct2] r
  have b: "reference_sigmoid_attn flash_attn_sigmoid_func keep_all (constant_tensor [1, 2, 1, 16] 1)
       (constant_tensor [1, 3, 1, 16] 1) (constant_tensor [1, 3, 1, 16] 1) 0 0 (- 1, - 1) None True
       = Inr out"
    by simp
  from r a b sh show ?thesis by (intro exI conjI)
qed

section \<open>Scaling a packed tensor\<close>

text \<open>
  Claim C4. For \<open>qkv\<close> of shape \<open>(B, N, 3, H, D)\<close> with \<open>D > 0\<close> and \<open>prescale = True\<close>,
  \<^verbatim>\<open>fused_sigmoid_flash2_attn\<close> hands the packed kernel, with \<open>softmax_scale = 1.0\<close>, a tensor
  of the same shape and precision whose slices 0 and 1 along the packing axis are those of
  \<open>qkv\<close> multiplied by \<open>D ** (-0.25)\<close> and whose slice 2, the values, is that of \<open>qkv\<close>
  unchanged.
\<close>

theorem fused_prescale_leaves_v:
  assumes "shape t = [B, N, 3, H, D]" and "0 < D"
  shows "\<exists>scaled.
     fused_kernel_qkv t True = Inr scaled \<and>
     fused_sigmoid_flash2_attn kern rs t sb ad ws al c True
       = and_then (kern rs scaled (Some 1) ad c ws al sb) flatten2 \<and>
     shape scaled = [B, N, 3, H, D] \<and> dtype scaled = dtype t \<and>
     (\<forall>b n h d. b < B \<and> n < N \<and> h < H \<and> d < D \<longrightarrow>
        elem scaled [b, n, 0, h, d] = elem t [b, n, 0, h, d] * real D powr (- (1 / 4)) \<and>
        elem scaled [b, n, 1, h, d] = elem t [b, n, 1, h, d] * real D powr (- (1 / 4)) \<and>
        elem scaled [b, n, 2, h, d] = elem t [b, n, 2, h, d])"
proof -
  have ne: "shape t \<noteq> []" and last: "last (shape t) = D"
    using assms(1) by simp_all
  have sf: "fused_scale_factor t =
     Inr \<lparr>shape = [1, 1, 3, 1, 1], dtype = dtype t,
          elem = (\<lambda>idx. if 2 < length idx \<and> idx ! 2 < 2
                         then real D powr (- (1 / 4)) else 1)\<rparr>"
  proof -
    have pos: "0 < last (shape t)" using assms(2) last by simp
    show ?thesis by (rule fused_scale_factor_result [OF ne pos, unfolded last])
  qed
  define scaled where "scaled =
     \<lparr>shape = [B, N, 3, H, D], dtype = dtype t,
      elem = (\<lambda>idx. elem t (broadcast_index [B, N, 3, H, D] idx)
                * (if 2 < length (broadcast_index [1, 1, 3, 1, 1] idx)
                      \<and> broadcast_index [1, 1, 3, 1, 1] idx ! 2 < 2
                   then real D powr (- (1 / 4)) else 1))\<rparr>"
  have k: "fused_kernel_qkv t True = Inr scaled"
    using broadcast_packed [of D H N B]
    by (simp add: fused_kernel_qkv_def sf tensor_mul_def assms(1) scaled_def)
  have call: "fused_sigmoid_flash2_attn kern rs t sb ad ws al c True
       = and_then (kern rs scaled (Some 1) ad c ws al sb) flatten2"
    by (simp add: fused_sigmoid_flash2_attn_def k)
  have sh: "shape scaled = [B, N, 3, H, D]" and dt: "dtype scaled = dtype t"
    by (simp_all add: scaled_def)
  have el: "\<forall>b n h d. b < B \<and> n < N \<and> h < H \<and> d < D \<longrightarrow>
        elem scaled [b, n, 0, h, d] = elem t [b, n, 0, h, d] * real D powr (- (1 / 4)) \<and>
        elem scaled [b, n, 1, h, d] = elem t [b, n, 1, h, d] * real D powr (- (1 / 4)) \<and>
        elem scaled [b, n, 2, h, d] = elem t [b, n, 2, h, d]"
    by (simp add: scaled_def broadcast_index_in_range broadcast_index_scale)
  from k call sh dt el show ?thesis by (intro exI conjI) assumption+
qed

text \<open>A packed tensor of ones with head dimension 16.\<close>

theorem fused_prescale_leaves_v_witness:
  "\<exists>scaled. fused_kernel_qkv (constant_tensor [1, 1, 3, 1, 16] 1) True = Inr scaled \<and>
     shape scaled = [1, 1, 3, 1, 16] \<and>
     elem scaled [0, 0, 0, 0, 0] = real 16 powr (- (1 / 4)) \<and>
     elem scaled [0, 0, 1, 0, 0] = real 16 powr (- (1 / 4)) \<and>
     elem scaled [0, 0, 2, 0, 0] = 1"
proof -
  have sh0: "shape (constant_tensor [1, 1, 3, 1, 16] 1) = [1, 1, 3, 1, 16]"
    by (simp add: constant_tensor_def)
  have pos: "(0::nat) < 16" by simp
  from fused_prescale_leaves_v [OF sh0 pos,
      of "\<lambda>rs t s p c w al sb. Inr t" keep_all 0 0 "(- 1, - 1)" None False]
  obtain scaled where
    k: "fused_kernel_qkv (constant_tensor [1, 1, 3, 1, 16] 1) True = Inr scaled"
    and sh: "shape scaled = [1, 1, 3, 1, 16]"
    and el: "\<forall>b n h d. b < 1 \<and> n < 1 \<and> h < 1 \<and> d < 16 \<longrightarrow>
        elem scaled [b, n, 0, h, d]
          = elem (constant_tensor [1, 1, 3, 1, 16] 1) [b, n, 0, h, d] * real 16 powr (- (1 / 4)) \<and>
        elem scaled [b, n, 1, h, d]
          = elem (constant_tensor [1, 1, 3, 1, 16] 1) [b, n, 1, h, d] * real 16 powr (- (1 / 4)) \<and>
        elem scaled [b, n, 2, h, d] = elem (constant_tensor [1, 1, 3, 1, 16] 1) [b, n, 2, h, d]"
    by blast
  from el [rule_format, of 0 0 0 0]
  have "elem scaled [0, 0, 0, 0, 0] = real 16 powr (- (1 / 4))"
    "elem scaled [0, 0, 1, 0, 0] = real 16 powr (- (1 / 4))"
    "elem scaled [0, 0, 2, 0, 0] = 1"
    by (simp_all add: constant_tensor_def)
  with k sh show ?thesis by (intro exI conjI)
qed

section \<open>Construction\<close>

text \<open>
  Claim C5. Construction checks divisibility before anything else: when \<open>dim\<close> is not
  divisible by \<open>num_heads\<close>, \<^verbatim>\<open>FlashSigmoidAttention.__init__\<close> fails with the assertion's
  error, whatever the other arguments are, so no layer exists whose forward could fail
  later; when it is divisible, construction succeeds as soon as the sub-layers it builds
  (the callables \<open>which_linear\<close> and \<open>norm_layer\<close>, and the dropout) are built. The same
  holds for \<^verbatim>\<open>FlashSigmoidCrossAttention.__init__\<close> with both \<open>q_dim\<close> and \<open>kv_dim\<close>: it
  fails unless each is divisible by \<open>num_heads\<close>. \<open>num_heads = 0\<close> fails in the
  divisibility test itself, with Python's error for a modulo by zero.
\<close>

theorem construction_divisibility:
  "(num_heads' = 0 \<longrightarrow>
      FlashSigmoidAttention_init dim' sb c num_heads' bias qkn ad pd ws al norm_layer
          which_linear xf fa = Inl ZeroDivisionError \<and>
      FlashSigmoidCrossAttention_init q_dim kv_dim sb c num_heads' bias qkn ad pd ws al norm_layer
          which_linear xf fa = Inl ZeroDivisionError) \<and>
   (num_heads' \<noteq> 0 \<and> dim' mod num_heads' \<noteq> 0 \<longrightarrow>
      FlashSigmoidAttention_init dim' sb c num_heads' bias qkn ad pd ws al norm_layer
          which_linear xf fa
        = Inl (AssertionError ''dim should be divisible by num_heads'')) \<and>
   (num_heads' \<noteq> 0 \<and> dim' mod num_heads' = 0 \<and>
    (\<exists>m. which_linear dim' (dim' * 3) bias = Inr m) \<and>
    (\<exists>m. which_linear dim' dim' bias = Inr m) \<and>
    (qkn \<longrightarrow> (\<exists>m. norm_layer (dim' div num_heads') = Inr m)) \<and> 0 \<le> pd \<and> pd \<le> 1 \<longrightarrow>
      (\<exists>layer. FlashSigmoidAttention_init dim' sb c num_heads' bias qkn ad pd ws al norm_layer
          which_linear xf fa = Inr layer)) \<and>
   (num_heads' \<noteq> 0 \<and> \<not> (q_dim mod num_heads' = 0 \<and> kv_dim mod num_heads' = 0) \<longrightarrow>
      FlashSigmoidCrossAttention_init q_dim kv_dim sb c num_heads' bias qkn ad pd ws al norm_layer
          which_linear xf fa
        = Inl (AssertionError ''Dimensions should be divisible by num_heads'')) \<and>
   (num_heads' \<noteq> 0 \<and> q_dim mod num_heads' = 0 \<and> kv_dim mod num_heads' = 0 \<and>
    (\<exists>m. which_linear q_dim q_dim bias = Inr m) \<and>
    (\<exists>m. which_linear kv_dim (kv_dim * 2) bias = Inr m) \<and>
    (\<exists>m. which_linear kv_dim q_dim bias = Inr m) \<and>
    (qkn \<longrightarrow> (\<exists>m. norm_layer (q_dim div num_heads') = Inr m)) \<and>
    (\<exists>m. norm_layer (kv_dim div num_heads') = Inr m) \<and> 0 \<le> pd \<and> pd \<le> 1 \<longrightarrow>
      (\<exists>layer. FlashSigmoidCrossAttention_init q_dim kv_dim sb c num_heads' bias qkn ad pd ws al
          norm_layer which_linear xf fa = Inr layer))"
  by (auto simp add: FlashSigmoidAttention_init_def FlashSigmoidCrossAttention_init_def
      nn_Dropout_def split: sum.splits)

theorem construction_divisibility_witness:
  "FlashSigmoidAttention_init 7 0 True 2 False True 0 0 (- 1, - 1) None nn_LayerNorm
       example_linear None (default_flash_attn flash_attn_sigmoid_func)
     = Inl (AssertionError ''dim should be divisible by num_heads'') \<and>
   (\<exists>layer. FlashSigmoidAttention_init 8 0 True 2 False True 0 0 (- 1, - 1) None nn_LayerNorm
       example_linear None (default_flash_attn flash_attn_sigmoid_func) = Inr layer) \<and>
   FlashSigmoidCrossAttention_init 4 3 0 True 2 False True 0 0 (- 1, - 1) None nn_LayerNorm
       example_linear None (default_flash_attn flash_attn_sigmoid_func)
     = Inl (AssertionError ''Dimensions should be divisible by num_heads'') \<and>
   (\<exists>layer. FlashSigmoidCrossAttention_init 4 2 0 True 2 False True 0 0 (- 1, - 1) None
       nn_LayerNorm example_linear None (default_flash_attn flash_attn_sigmoid_func)
     = Inr layer) \<and>
   FlashSigmoidAttention_init 8 0 True 0 False True 0 0 (- 1, - 1) None nn_LayerNorm
       example_linear None (default_flash_attn flash_attn_sigmoid_func) = Inl ZeroDivisionError"
  using
    construction_divisibility [of 2 7 0 True False True 0 0 "(- 1, - 1)" None nn_LayerNorm
      example_linear None "default_flash_attn flash_attn_sigmoid_func" 4 3]
    construction_divisibility [of 2 8 0 True False True 0 0 "(- 1, - 1)" None nn_LayerNorm
      example_linear None "default_flash_attn flash_attn_sigmoid_func" 4 2]
    construction_divisibility [of 0 8 0 True False True 0 0 "(- 1, - 1)" None nn_LayerNorm
      example_linear None "default_flash_attn flash_attn_sigmoid_func" 4 2]
  by (simp add: example_linear_def nn_Linear_def nn_LayerNorm_def)

section \<open>Cross-attention with unequal dimensions\<close>

text \<open>
  Claim C6. \<^verbatim>\<open>FlashSigmoidCrossAttention\<close> with \<open>q_dim = 4\<close>, \<open>kv_dim = 2\<close> and two heads is
  built, with an output projection from \<open>kv_dim\<close> to \<open>q_dim\<close>. Its forward pass reshapes \<open>q\<close>
  to the head dimension 2 and \<open>k\<close>, \<open>v\<close> to the head dimension 1 and hands them to the
  default \<open>which_flash_attn\<close>; the kernel needs \<open>q\<close> and \<open>k\<close> of one head dimension to form
  \<open>q_i \<cdot> k_j\<close>, and the forward pass fails with \<open>ShapeMismatch\<close> instead of returning a
  record.
\<close>

theorem cross_attention_unequal_dims_fails:
  "FlashSigmoidCrossAttention_init 4 2 0 False 2 False False 0 0 (- 1, - 1) None nn_LayerNorm
     example_linear None (default_flash_attn flash_attn_sigmoid_func)
     = Inr mismatched_cross_layer \<and>
   FlashSigmoidCrossAttention_forward mismatched_cross_layer keep_all
     (constant_tensor [1, 1, 4] 1) (constant_tensor [1, 1, 2] 1) ([] :: (string \<times> unit) list)
     = Inl ShapeMismatch"
proof -
  from mismatched_cross_args obtain q k v where
    args: "FlashSigmoidCrossAttention_kernel_args mismatched_cross_layer
       (constant_tensor [1, 1, 4] 1) (constant_tensor [1, 1, 2] 1) = Inr (q, k, v)"
    and sh: "shape q = [1, 1, 2, 2]" "shape k = [1, 1, 2, 1]" "shape v = [1, 1, 2, 1]"
    by blast
  have "default_flash_attn flash_attn_sigmoid_func keep_all q k v 0 False (- 1, - 1) None 0
      = Inl ShapeMismatch"
    by (rule mismatched_head_dims [OF sh(1) _ sh(2)]) simp_all
  then have "attend_and_project mismatched_cross_layer keep_all (q, k, v) = Inl ShapeMismatch"
    by (simp add: attend_and_project_def mismatched_cross_layer_def)
  then have "FlashSigmoidCrossAttention_forward mismatched_cross_layer keep_all
     (constant_tensor [1, 1, 4] 1) (constant_tensor [1, 1, 2] 1) ([] :: (string \<times> unit) list)
     = Inl ShapeMismatch"
    unfolding FlashSigmoidCrossAttention_forward_def args and_then_Inr .
  with mismatched_cross_layer_init show ?thesis by (intro conjI)
qed

theorem cross_attention_unequal_dims_fails_witness:
  "isl (FlashSigmoidCrossAttention_forward mismatched_cross_layer keep_all
     (constant_tensor [1, 1, 4] 1) (constant_tensor [1, 1, 2] 1) ([] :: (string \<times> unit) list))"
  using cross_attention_unequal_dims_fails by simp

section \<open>Casting q and k to the precision of v\<close>

text \<open>
  Claim C7. In both layers, the \<open>q\<close> and \<open>k\<close> handed to \<open>which_flash_attn\<close> are the results
  of the optional transform (or, without one, of the norms), which was applied to the
  normalized \<open>q\<close> and \<open>k\<close>, cast to the precision of the \<open>v\<close> handed over with them; that
  \<open>v\<close> is the value slice itself (self-attention) or the result of \<open>v_norm\<close>
  (cross-attention), with no cast applied. So \<open>which_flash_attn\<close> is only ever called with
  \<open>q\<close> and \<open>k\<close> at the precision of \<open>v\<close>: a callable that refuses anything else gives the
  same forward pass.
\<close>

theorem qk_cast_to_v_precision:
  "(FlashSigmoidAttention_kernel_args self x = Inr (q, k, v) \<longrightarrow>
      dtype q = dtype v \<and> dtype k = dtype v \<and>
      (\<exists>y t qn kn q0 k0.
          qkv self x = Inr y \<and>
          reshape y [int (shape x ! 0), int (shape x ! 1), 3, num_heads self,
                     int (shape x ! 2) div num_heads self] = Inr t \<and>
          q_norm self (select 2 0 t) = Inr qn \<and>
          k_norm self (select 2 1 t) = Inr kn \<and>
          (case qk_transform self of None \<Rightarrow> Inr (qn, kn) | Some f \<Rightarrow> f qn kn 0 0)
            = Inr (q0, k0) \<and>
          q = to_dtype (dtype v) q0 \<and> k = to_dtype (dtype v) k0 \<and>
          v = select 2 2 t)) \<and>
   (FlashSigmoidCrossAttention_kernel_args cross xq xkv = Inr (q', k', v') \<longrightarrow>
      dtype q' = dtype v' \<and> dtype k' = dtype v' \<and>
      (\<exists>y1 tq y2 t qn kn q0 k0.
          q_proj cross xq = Inr y1 \<and>
          reshape y1 [int (shape xq ! 0), int (shape xq ! 1), num_heads cross, head_dim_q cross]
            = Inr tq \<and>
          kv_proj cross xkv = Inr y2 \<and>
          reshape y2 [int (shape xkv ! 0), int (shape xkv ! 1), 2, num_heads cross,
                      head_dim_kv cross] = Inr t \<and>
          q_norm cross tq = Inr qn \<and>
          k_norm cross (select 2 0 t) = Inr kn \<and>
          (case qk_transform cross of None \<Rightarrow> Inr (qn, kn) | Some f \<Rightarrow> f qn kn 0 0)
            = Inr (q0, k0) \<and>
          q' = to_dtype (dtype v') q0 \<and> k' = to_dtype (dtype v') k0 \<and>
          v_norm cross (select 2 1 t) = Inr v')) \<and>
   FlashSigmoidAttention_forward self rs x kw
     = FlashSigmoidAttention_forward
         (self\<lparr>which_flash_attn := uniform_precision_only (which_flash_attn self)\<rparr>) rs x kw \<and>
   FlashSigmoidCrossAttention_forward cross rs xq xkv kw
     = FlashSigmoidCrossAttention_forward
         (cross\<lparr>which_flash_attn := uniform_precision_only (which_flash_attn cross)\<rparr>) rs xq xkv kw"
proof (intro conjI impI)
  assume args: "FlashSigmoidAttention_kernel_args self x = Inr (q, k, v)"
  from self_kernel_args_Inr [OF args] obtain y t qn kn q0 k0 where
    h: "qkv self x = Inr y"
      "reshape y [int (shape x ! 0), int (shape x ! 1), 3, num_heads self,
                     int (shape x ! 2) div num_heads self] = Inr t"
      "q_norm self (select 2 0 t) = Inr qn" "k_norm self (select 2 1 t) = Inr kn"
      "(case qk_transform self of None \<Rightarrow> Inr (qn, kn) | Some f \<Rightarrow> f qn kn 0 0) = Inr (q0, k0)"
      "q = to_dtype (dtype (select 2 2 t)) q0" "k = to_dtype (dtype (select 2 2 t)) k0"
      "v = select 2 2 t"
    by blast
  from h(6,8) show "dtype q = dtype v" by (simp add: to_dtype_def)
  from h(7,8) show "dtype k = dtype v" by (simp add: to_dtype_def)
  from h show "\<exists>y t qn kn q0 k0.
          qkv self x = Inr y \<and>
          reshape y [int (shape x ! 0), int (shape x ! 1), 3, num_heads self,
                     int (shape x ! 2) div num_heads self] = Inr t \<and>
          q_norm self (select 2 0 t) = Inr qn \<and>
          k_norm self (select 2 1 t) = Inr kn \<and>
          (case qk_transform self of None \<Rightarrow> Inr (qn, kn) | Some f \<Rightarrow> f qn kn 0 0)
            = Inr (q0, k0) \<and>
          q = to_dtype (dtype v) q0 \<and> k = to_dtype (dtype v) k0 \<and>
          v = select 2 2 t"
    by (intro exI conjI) simp_all
next
  assume args: "FlashSigmoidCrossAttention_kernel_args cross xq xkv = Inr (q', k', v')"
  from cross_kernel_args_Inr [OF args] obtain y1 tq y2 t qn kn vn q0 k0 where
    h: "q_proj cross xq = Inr y1"
      "reshape y1 [int (shape xq ! 0), int (shape xq ! 1), num_heads cross, head_dim_q cross]
        = Inr tq"
      "kv_proj cross xkv = Inr y2"
      "reshape y2 [int (shape xkv ! 0), int (shape xkv ! 1), 2, num_heads cross,
                   head_dim_kv cross] = Inr t"
      "q_norm cross tq = Inr qn" "k_norm cross (select 2 0 t) = Inr kn"
      "v_norm cross (select 2 1 t) = Inr vn"
      "(case qk_transform cross of None \<Rightarrow> Inr (qn, kn) | Some f \<Rightarrow> f qn kn 0 0) = Inr (q0, k0)"
      "q' = to_dtype (dtype vn) q0" "k' = to_dtype (dtype vn) k0" "v' = vn"
    by blast
  from h(9,11) show "dtype q' = dtype v'" by (simp add: to_dtype_def)
  from h(10,11) show "dtype k' = dtype v'" by (simp add: to_dtype_def)
  from h show "\<exists>y1 tq y2 t qn kn q0 k0.
          q_proj cross xq = Inr y1 \<and>
          reshape y1 [int (shape xq ! 0), int (shape xq ! 1), num_heads cross, head_dim_q cross]
            = Inr tq \<and>
          kv_proj cross xkv = Inr y2 \<and>
          reshape y2 [int (shape xkv ! 0), int (shape xkv ! 1), 2, num_heads cross,
                      head_dim_kv cross] = Inr t \<and>
          q_norm cross tq = Inr qn \<and>
          k_norm cross (select 2 0 t) = Inr kn \<and>
          (case qk_transform cross of None \<Rightarrow> Inr (qn, kn) | Some f \<Rightarrow> f qn kn 0 0)
            = Inr (q0, k0) \<and>
          q' = to_dtype (dtype v') q0 \<and> k' = to_dtype (dtype v') k0 \<and>
          v_norm cross (select 2 1 t) = Inr v'"
    by (intro exI conjI) simp_all
next
  show "FlashSigmoidAttention_forward self rs x kw
     = FlashSigmoidAttention_forward
         (self\<lparr>which_flash_attn := uniform_precision_only (which_flash_attn self)\<rparr>) rs x kw"
  proof (cases "FlashSigmoidAttention_kernel_args self x")
    case (Inl e)
    then show ?thesis by (simp add: FlashSigmoidAttention_forward_def)
  next
    case (Inr args)
    obtain a b c where abc: "args = (a, b, c)" by (cases args) auto
    from self_kernel_args_Inr [OF Inr [unfolded abc]]
    have "dtype a = dtype c" "dtype b = dtype c" by (auto simp add: to_dtype_def)
    then show ?thesis
      by (simp add: FlashSigmoidAttention_forward_def Inr abc attend_uniform_precision)
  qed
next
  show "FlashSigmoidCrossAttention_forward cross rs xq xkv kw
     = FlashSigmoidCrossAttention_forward
         (cross\<lparr>which_flash_attn := uniform_precision_only (which_flash_attn cross)\<rparr>) rs xq xkv kw"
  proof (cases "FlashSigmoidCrossAttention_kernel_args cross xq xkv")
    case (Inl e)
    then show ?thesis by (simp add: FlashSigmoidCrossAttention_forward_def)
  next
    case (Inr args)
    obtain a b c where abc: "args = (a, b, c)" by (cases args) auto
    from cross_kernel_args_Inr [OF Inr [unfolded abc]]
    have "dtype a = dtype c" "dtype b = dtype c" by (auto simp add: to_dtype_def)
    then show ?thesis
      by (simp add: FlashSigmoidCrossAttention_forward_def Inr abc attend_uniform_precision)
  qed
qed

text \<open>
  With a \<open>q_norm\<close> that returns \<open>float32\<close>, the \<open>q\<close> handed over is back at \<open>float16\<close>, the
  precision of \<open>v\<close>.
\<close>

theorem qk_cast_to_v_precision_witness:
  "(\<exists>q k v. FlashSigmoidAttention_kernel_args (example_self_layer\<lparr>q_norm := upcast_norm\<rparr>)
       (constant_tensor [1, 1, 2] 1) = Inr (q, k, v) \<and>
       dtype q = float16 \<and> dtype k = float16 \<and> dtype v = float16) \<and>
   (\<exists>q k v. FlashSigmoidCrossAttention_kernel_args example_cross_layer
       (constant_tensor [1, 1, 2] 1) (constant_tensor [1, 3, 2] 1) = Inr (q, k, v) \<and>
       dtype q = dtype v \<and> dtype k = dtype v)"
proof -
  from upcast_self_args obtain q k v where
    a: "FlashSigmoidAttention_kernel_args (example_self_layer\<lparr>q_norm := upcast_norm\<rparr>)
       (constant_tensor [1, 1, 2] 1) = Inr (q, k, v)" and v: "dtype v = float16"
    by blast
  from example_cross_args obtain q' k' v' where
    b: "FlashSigmoidCrossAttention_kernel_args example_cross_layer (constant_tensor [1, 1, 2] 1)
        (constant_tensor [1, 3, 2] 1) = Inr (q', k', v')"
    by blast
  note inst = qk_cast_to_v_precision [of "example_self_layer\<lparr>q_norm := upcast_norm\<rparr>"
      "constant_tensor [1, 1, 2] 1" q k v example_cross_layer "constant_tensor [1, 1, 2] 1"
      "constant_tensor [1, 3, 2] 1" q' k' v' keep_all "[] :: (string \<times> unit) list"]
  from inst [THEN conjunct1, rule_format, OF a] v
  have "dtype q = float16" "dtype k = float16" by simp_all
  with a v have first: "\<exists>q k v.
       FlashSigmoidAttention_kernel_args (example_self_layer\<lparr>q_norm := upcast_norm\<rparr>)
       (constant_tensor [1, 1, 2] 1) = Inr (q, k, v) \<and>
       dtype q = float16 \<and> dtype k = float16 \<and> dtype v = float16"
    by (intro exI conjI)
  from inst [THEN conjunct2, THEN conjunct1, rule_format, OF b]
  have "dtype q' = dtype v'" "dtype k' = dtype v'" by simp_all
  with b have second: "\<exists>q k v. FlashSigmoidCrossAttention_kernel_args example_cross_layer
       (constant_tensor [1, 1, 2] 1) (constant_tensor [1, 3, 2] 1) = Inr (q, k, v) \<and>
       dtype q = dtype v \<and> dtype k = dtype v"
    by (intro exI conjI)
  from first second show ?thesis ..
qed

section \<open>The positional transform\<close>

text \<open>
  Claim C8. In both layers a configured \<open>qk_transform\<close> is called with the position offsets
  0 and 0 only: the forward pass is the same with a transform that ignores the offsets it
  is given and uses 0 and 0. Without a \<open>qk_transform\<close> the forward pass is the one with the
  transform that returns \<open>q\<close> and \<open>k\<close> as they are. The \<open>q\<close> and \<open>k\<close> handed to
  \<open>which_flash_attn\<close> are the casts of the transform's results at offsets 0 and 0, or of
  the normalized \<open>q\<close> and \<open>k\<close> when there is no transform.
\<close>

theorem qk_transform_offsets_zero:
  "FlashSigmoidAttention_forward (self\<lparr>qk_transform := Some f\<rparr>) rs x kw
     = FlashSigmoidAttention_forward
         (self\<lparr>qk_transform := Some (\<lambda>q k q_pos_offset k_pos_offset. f q k 0 0)\<rparr>) rs x kw \<and>
   FlashSigmoidAttention_forward (self\<lparr>qk_transform := None\<rparr>) rs x kw
     = FlashSigmoidAttention_forward
         (self\<lparr>qk_transform := Some (\<lambda>q k q_pos_offset k_pos_offset. Inr (q, k))\<rparr>) rs x kw \<and>
   FlashSigmoidCrossAttention_forward (cross\<lparr>qk_transform := Some f\<rparr>) rs xq xkv kw
     = FlashSigmoidCrossAttention_forward
         (cross\<lparr>qk_transform := Some (\<lambda>q k q_pos_offset k_pos_offset. f q k 0 0)\<rparr>) rs xq xkv kw \<and>
   FlashSigmoidCrossAttention_forward (cross\<lparr>qk_transform := None\<rparr>) rs xq xkv kw
     = FlashSigmoidCrossAttention_forward
         (cross\<lparr>qk_transform := Some (\<lambda>q k q_pos_offset k_pos_offset. Inr (q, k))\<rparr>) rs xq xkv kw \<and>
   (FlashSigmoidAttention_kernel_args self x = Inr (q, k, v) \<longrightarrow>
      (\<exists>qn kn q0 k0.
          (case qk_transform self of None \<Rightarrow> Inr (qn, kn) | Some g \<Rightarrow> g qn kn 0 0)
            = Inr (q0, k0) \<and>
          q = to_dtype (dtype v) q0 \<and> k = to_dtype (dtype v) k0)) \<and>
   (FlashSigmoidCrossAttention_kernel_args cross xq xkv = Inr (q', k', v') \<longrightarrow>
      (\<exists>qn kn q0 k0.
          (case qk_transform cross of None \<Rightarrow> Inr (qn, kn) | Some g \<Rightarrow> g qn kn 0 0)
            = Inr (q0, k0) \<and>
          q' = to_dtype (dtype v') q0 \<and> k' = to_dtype (dtype v') k0))"
proof (intro conjI impI)
  assume args: "FlashSigmoidAttention_kernel_args self x = Inr (q, k, v)"
  from self_kernel_args_Inr [OF args]
  show "\<exists>qn kn q0 k0.
          (case qk_transform self of None \<Rightarrow> Inr (qn, kn) | Some g \<Rightarrow> g qn kn 0 0)
            = Inr (q0, k0) \<and>
          q = to_dtype (dtype v) q0 \<and> k = to_dtype (dtype v) k0"
    by (elim exE conjE, intro exI conjI) simp_all
next
  assume args: "FlashSigmoidCrossAttention_kernel_args cross xq xkv = Inr (q', k', v')"
  from cross_kernel_args_Inr [OF args]
  show "\<exists>qn kn q0 k0.
          (case qk_transform cross of None \<Rightarrow> Inr (qn, kn) | Some g \<Rightarrow> g qn kn 0 0)
            = Inr (q0, k0) \<and>
          q' = to_dtype (dtype v') q0 \<and> k' = to_dtype (dtype v') k0"
    by (elim exE conjE, intro exI conjI) simp_all
qed (simp_all add: FlashSigmoidAttention_forward_def FlashSigmoidCrossAttention_forward_def
    self_kernel_args_transform [symmetric] cross_kernel_args_transform [symmetric])

text \<open>
  A transform that scales \<open>q\<close> by \<open>1 + q_pos_offset\<close> and \<open>k\<close> by \<open>1 + k_pos_offset\<close>: the
  layer hands on \<open>q\<close> and \<open>k\<close> scaled by \<open>1 + 0\<close>.
\<close>

theorem qk_transform_offsets_zero_witness:
  "\<exists>q k v qn kn.
     FlashSigmoidAttention_kernel_args (example_self_layer\<lparr>qk_transform := Some offset_scaling\<rparr>)
       (constant_tensor [1, 1, 2] 1) = Inr (q, k, v) \<and>
     q = to_dtype (dtype v) (mul_scalar qn (1 + real_of_int 0)) \<and>
     k = to_dtype (dtype v) (mul_scalar kn (1 + real_of_int 0))"
proof -
  from offset_self_args obtain q k v where
    a: "FlashSigmoidAttention_kernel_args
       (example_self_layer\<lparr>qk_transform := Some offset_scaling\<rparr>)
       (constant_tensor [1, 1, 2] 1) = Inr (q, k, v)"
    by blast
  from qk_transform_offsets_zero [of offset_scaling
      "example_self_layer\<lparr>qk_transform := Some offset_scaling\<rparr>" keep_all "constant_tensor [1, 1, 2] 1" "[] :: (string \<times> unit) list"
      example_cross_layer "constant_tensor [1, 1, 2] 1" "constant_tensor [1, 3, 2] 1" q k v,
      THEN conjunct2, THEN conjunct2, THEN conjunct2, THEN conjunct2, THEN conjunct1,
      rule_format, OF a]
  obtain qn kn q0 k0 where
    t: "offset_scaling qn kn 0 0 = Inr (q0, k0)"
    and q: "q = to_dtype (dtype v) q0" and k: "k = to_dtype (dtype v) k0"
    by auto
  from t have "q0 = mul_scalar qn (1 + real_of_int 0)" "k0 = mul_scalar kn (1 + real_of_int 0)"
    by (simp_all add: offset_scaling_def)
  with a q k show ?thesis by (intro exI conjI) simp_all
qed

section \<open>The record a forward pass returns\<close>

text \<open>
  Claim C9. Whenever the forward pass of either layer returns, it returns a dictionary with
  exactly the keys \<open>attn_times_v\<close> and \<open>attn_proj\<close>: \<open>attn_times_v\<close> is what
  \<open>which_flash_attn\<close> returned for the prepared \<open>q\<close>, \<open>k\<close>, \<open>v\<close>, before the output
  projection, and \<open>attn_proj\<close> is the dropout of the output projection of \<open>attn_times_v\<close>.
  The forward pass returns nothing else and leaves the layer as it was.
\<close>

theorem forward_output_record:
  "(FlashSigmoidAttention_forward self rs x kw = Inr out \<longrightarrow>
      dom out = {''attn_times_v'', ''attn_proj''} \<and>
      (\<exists>q k v a p.
          FlashSigmoidAttention_kernel_args self x = Inr (q, k, v) \<and>
          which_flash_attn self rs q k v (attn_drop self) (causal self) (window_size self)
            (alibi_slopes self) (sigmoid_bias self) = Inr a \<and>
          proj self a = Inr p \<and>
          out ''attn_times_v'' = Some a \<and>
          out ''attn_proj''
            = Some (Dropout_forward (proj_drop self) (training self) (proj_keep rs) p))) \<and>
   (FlashSigmoidCrossAttention_forward cross rs xq xkv kw = Inr out' \<longrightarrow>
      dom out' = {''attn_times_v'', ''attn_proj''} \<and>
      (\<exists>q k v a p.
          FlashSigmoidCrossAttention_kernel_args cross xq xkv = Inr (q, k, v) \<and>
          which_flash_attn cross rs q k v (attn_drop cross) (causal cross) (window_size cross)
            (alibi_slopes cross) (sigmoid_bias cross) = Inr a \<and>
          proj cross a = Inr p \<and>
          out' ''attn_times_v'' = Some a \<and>
          out' ''attn_proj''
            = Some (Dropout_forward (proj_drop cross) (training cross) (proj_keep rs) p)))"
proof -
  have self_part: "dom out = {''attn_times_v'', ''attn_proj''} \<and>
      (\<exists>q k v a p.
          FlashSigmoidAttention_kernel_args self x = Inr (q, k, v) \<and>
          which_flash_attn self rs q k v (attn_drop self) (causal self) (window_size self)
            (alibi_slopes self) (sigmoid_bias self) = Inr a \<and>
          proj self a = Inr p \<and>
          out ''attn_times_v'' = Some a \<and>
          out ''attn_proj''
            = Some (Dropout_forward (proj_drop self) (training self) (proj_keep rs) p))"
    if h: "FlashSigmoidAttention_forward self rs x kw = Inr out"
  proof -
    from h obtain args where a: "FlashSigmoidAttention_kernel_args self x = Inr args"
      and b: "attend_and_project self rs args = Inr out"
      unfolding FlashSigmoidAttention_forward_def and_then_def
      by (cases "FlashSigmoidAttention_kernel_args self x") simp_all
    obtain q k v where args: "args = (q, k, v)" by (cases args) auto
    from attend_and_project_Inr [OF b [unfolded args]] a [unfolded args]
    show ?thesis by (elim conjE exE, intro conjI exI) assumption+
  qed
  have cross_part: "dom out' = {''attn_times_v'', ''attn_proj''} \<and>
      (\<exists>q k v a p.
          FlashSigmoidCrossAttention_kernel_args cross xq xkv = Inr (q, k, v) \<and>
          which_flash_attn cross rs q k v (attn_drop cross) (causal cross) (window_size cross)
            (alibi_slopes cross) (sigmoid_bias cross) = Inr a \<and>
          proj cross a = Inr p \<and>
          out' ''attn_times_v'' = Some a \<and>
          out' ''attn_proj''
            = Some (Dropout_forward (proj_drop cross) (training cross) (proj_keep rs) p))"
    if h: "FlashSigmoidCrossAttention_forward cross rs xq xkv kw = Inr out'"
  proof -
    from h obtain args where a: "FlashSigmoidCrossAttention_kernel_args cross xq xkv = Inr args"
      and b: "attend_and_project cross rs args = Inr out'"
      unfolding FlashSigmoidCrossAttention_forward_def and_then_def
      by (cases "FlashSigmoidCrossAttention_kernel_args cross xq xkv") simp_all
    obtain q k v where args: "args = (q, k, v)" by (cases args) auto
    from attend_and_project_Inr [OF b [unfolded args]] a [unfolded args]
    show ?thesis by (elim conjE exE, intro conjI exI) assumption+
  qed
  show ?thesis
    by (rule conjI; rule impI; (rule self_part cross_part, assumption))
qed

text \<open>Both example layers return such a record.\<close>

theorem forward_output_record_witness:
  "(\<exists>out. FlashSigmoidAttention_forward example_self_layer keep_all
            (constant_tensor [1, 1, 2] 1) ([] :: (string \<times> unit) list) = Inr out \<and>
          dom out = {''attn_times_v'', ''attn_proj''}) \<and>
   (\<exists>out. FlashSigmoidCrossAttention_forward example_cross_layer keep_all
            (constant_tensor [1, 1, 2] 1) (constant_tensor [1, 3, 2] 1)
            ([] :: (string \<times> unit) list) = Inr out \<and>
          dom out = {''attn_times_v'', ''attn_proj''})"
proof -
  from example_self_forward obtain out where
    a: "FlashSigmoidAttention_forward example_self_layer keep_all (constant_tensor [1, 1, 2] 1)
          ([] :: (string \<times> unit) list) = Inr out" ..
  from example_cross_forward obtain out' where
    b: "FlashSigmoidCrossAttention_forward example_cross_layer keep_all
       (constant_tensor [1, 1, 2] 1) (constant_tensor [1, 3, 2] 1) ([] :: (string \<times> unit) list)
         = Inr out'" ..
  note inst = forward_output_record [of example_self_layer keep_all "constant_tensor [1, 1, 2] 1"
      "[] :: (string \<times> unit) list" out example_cross_layer "constant_tensor [1, 1, 2] 1"
      "constant_tensor [1, 3, 2] 1" out']
  from inst [THEN conjunct1, rule_format, OF a] have d: "dom out = {''attn_times_v'', ''attn_proj''}" ..
  from inst [THEN conjunct2, rule_format, OF b] have d': "dom out' = {''attn_times_v'', ''attn_proj''}" ..
  from a d have "\<exists>out. FlashSigmoidAttention_forward example_self_layer keep_all
            (constant_tensor [1, 1, 2] 1) ([] :: (string \<times> unit) list) = Inr out \<and>
          dom out = {''attn_times_v'', ''attn_proj''}"
    by (intro exI conjI)
  moreover from b d' have "\<exists>out. FlashSigmoidCrossAttention_forward example_cross_layer keep_all
            (constant_tensor [1, 1, 2] 1) (constant_tensor [1, 3, 2] 1)
            ([] :: (string \<times> unit) list) = Inr out \<and>
          dom out = {''attn_times_v'', ''attn_proj''}"
    by (intro exI conjI)
  ultimately show ?thesis ..
qed

section \<open>Extra keyword arguments\<close>

text \<open>
  Claim C10. For every layer, input, random state and extra keyword arguments, the forward
  pass of either layer with the extra arguments returns what it returns without them.
\<close>

theorem forward_ignores_unused_kwargs:
  "FlashSigmoidAttention_forward self rs x unused_kwargs
     = FlashSigmoidAttention_forward self rs x [] \<and>
   FlashSigmoidCrossAttention_forward cross rs q kv unused_kwargs
     = FlashSigmoidCrossAttention_forward cross rs q kv []"
  by (simp add: FlashSigmoidAttention_forward_def FlashSigmoidCrossAttention_forward_def)

text \<open>The example self-attention layer with an \<open>attention_mask\<close> argument.\<close>

theorem forward_ignores_unused_kwargs_witness:
  "\<exists>out. FlashSigmoidAttention_forward example_self_layer keep_all (constant_tensor [1, 1, 2] 1)
       [(''attention_mask'', ())] = Inr out \<and>
     FlashSigmoidAttention_forward example_self_layer keep_all (constant_tensor [1, 1, 2] 1)
       ([] :: (string \<times> unit) list) = Inr out"
proof -
  from example_self_forward obtain out where
    a: "FlashSigmoidAttention_forward example_self_layer keep_all (constant_tensor [1, 1, 2] 1)
          ([] :: (string \<times> unit) list) = Inr out" ..
  note e = forward_ignores_unused_kwargs [of example_self_layer keep_all
      "constant_tensor [1, 1, 2] 1" "[(''attention_mask'', ())]", THEN conjunct1]
  have "FlashSigmoidAttention_forward example_self_layer keep_all (constant_tensor [1, 1, 2] 1)
       [(''attention_mask'', ())] = Inr out"
    by (rule trans [OF e a])
  with a show ?thesis by (intro exI conjI)
qed

end
